theory Spec2Isabelle
  imports Main
begin

section \<open>The Go standard library, as far as the plugin calls it\<close>

text \<open>
  The plugin calls \<^verbatim>\<open>net.ParseIP\<close>, \<^verbatim>\<open>net.ParseCIDR\<close>, \<^verbatim>\<open>(*IPNet).Contains\<close>,
  \<^verbatim>\<open>IP.Equal\<close>, \<^verbatim>\<open>strings.TrimSpace\<close>, \<^verbatim>\<open>strings.ToLower\<close>, \<^verbatim>\<open>strings.Split\<close> and the
  key canonicalisation behind \<^verbatim>\<open>http.Header.Get\<close> and \<^verbatim>\<open>http.Header.Set\<close>. None of them is
  code of the repository, so the embedding takes them as one parameter \<open>lib\<close>; every general
  theorem below holds for any such library. \<open>ParseIP\<close> returns \<open>None\<close> where Go returns
  \<^verbatim>\<open>nil\<close>, \<open>ParseCIDR\<close> returns \<open>None\<close> where Go returns an error and the network otherwise.
\<close>

record ('ip, 'net) golib =
  ParseIP :: "string \<Rightarrow> 'ip option"
  ParseCIDR :: "string \<Rightarrow> 'net option"
  Contains :: "'net \<Rightarrow> 'ip \<Rightarrow> bool"
  Equal :: "'ip \<Rightarrow> 'ip \<Rightarrow> bool"
  TrimSpace :: "string \<Rightarrow> string"
  ToLower :: "string \<Rightarrow> string"
  Split :: "string \<Rightarrow> string \<Rightarrow> string list"
  CanonicalMIMEHeaderKey :: "string \<Rightarrow> string"

subsection \<open>\<^verbatim>\<open>http.Header\<close> and \<^verbatim>\<open>http.Request\<close>\<close>

text \<open>
  \<^verbatim>\<open>http.Header\<close> is \<^verbatim>\<open>map[string][]string\<close>. \<^verbatim>\<open>Get\<close> returns the first value stored under
  the canonical form of the key, or the empty string; \<^verbatim>\<open>Set\<close> replaces whatever is stored
  under the canonical form of the key by the single value.
\<close>

type_synonym Header = "string \<rightharpoonup> string list"

definition Header_Get :: "('ip, 'net) golib \<Rightarrow> Header \<Rightarrow> string \<Rightarrow> string" where
  "Header_Get lib h key =
     (case h (CanonicalMIMEHeaderKey lib key) of
        None \<Rightarrow> ''''
      | Some [] \<Rightarrow> ''''
      | Some (v # _) \<Rightarrow> v)"

definition Header_Set :: "('ip, 'net) golib \<Rightarrow> Header \<Rightarrow> string \<Rightarrow> string \<Rightarrow> Header" where
  "Header_Set lib h key v = h(CanonicalMIMEHeaderKey lib key \<mapsto> [v])"

record Request =
  Header :: Header

subsection \<open>Iteration over a Go map\<close>

text \<open>
  Go leaves the order in which \<^verbatim>\<open>range\<close> visits a map unspecified and randomises it. A
  \<^verbatim>\<open>range\<close> loop over a map therefore takes the order of the visit as an argument: a list of
  keys. \<open>range_order m ks\<close> says that \<open>ks\<close> is a possible order for the map \<open>m\<close>: every key
  of \<open>m\<close> once. The loop visits the keys of the list that the map holds.
\<close>

definition range_order :: "('k \<rightharpoonup> 'v) \<Rightarrow> 'k list \<Rightarrow> bool" where
  "range_order m ks = (distinct ks \<and> set ks = dom m)"

definition range_values :: "('k \<rightharpoonup> 'v) \<Rightarrow> 'k list \<Rightarrow> 'v list" where
  "range_values m ks = List.map_filter m ks"

section \<open>The providers (\<^verbatim>\<open>pkg/providers\<close>)\<close>

definition genericProviderXForwardedForHeader :: string where
  "genericProviderXForwardedForHeader = ''X-Forwarded-For''"

definition genericProviderXRealIPHeader :: string where
  "genericProviderXRealIPHeader = ''X-Real-Ip''"

definition cloudflareProviderTrueClientIPHeader :: string where
  "cloudflareProviderTrueClientIPHeader = ''True-Client-IP''"

definition cloudflareProviderCFConnectingIPHeader :: string where
  "cloudflareProviderCFConnectingIPHeader = ''CF-Connecting-IP''"

definition qratorProviderXQratorIPSourceHeader :: string where
  "qratorProviderXQratorIPSourceHeader = ''X-Qrator-IP-Source''"

text \<open>
  \<^verbatim>\<open>GenericProvider\<close>, \<^verbatim>\<open>CloudflareProvider\<close> and \<^verbatim>\<open>QratorProvider\<close> are three structs with the
  same five fields. The field \<^verbatim>\<open>values\<close> is written \<open>values'\<close>.
\<close>

record ('ip, 'net) Provider =
  name :: string
  headers :: "string list"
  values' :: "string \<rightharpoonup> string"
  excludedNetworks :: "'net list"
  excludedAddresses :: "'ip list"

text \<open>
  \<^verbatim>\<open>InitializeGenericProvider\<close> (generic.go), and the \<^verbatim>\<open>Initialize\<close> methods of the Cloudflare
  and Qrator providers.
\<close>

definition InitializeGenericProvider :: "'net list \<Rightarrow> 'ip list \<Rightarrow> ('ip, 'net) Provider" where
  "InitializeGenericProvider nets addrs =
     \<lparr> name = ''generic'',
       headers = [genericProviderXForwardedForHeader, genericProviderXRealIPHeader],
       values' = Map.empty,
       excludedNetworks = nets,
       excludedAddresses = addrs \<rparr>"

definition InitializeCloudflareProvider :: "'net list \<Rightarrow> 'ip list \<Rightarrow> ('ip, 'net) Provider" where
  "InitializeCloudflareProvider nets addrs =
     \<lparr> name = ''cloudflare'',
       headers = [cloudflareProviderTrueClientIPHeader, cloudflareProviderCFConnectingIPHeader],
       values' = Map.empty,
       excludedNetworks = nets,
       excludedAddresses = addrs \<rparr>"

definition InitializeQratorProvider :: "'net list \<Rightarrow> 'ip list \<Rightarrow> ('ip, 'net) Provider" where
  "InitializeQratorProvider nets addrs =
     \<lparr> name = ''qrator'',
       headers = [qratorProviderXQratorIPSourceHeader],
       values' = Map.empty,
       excludedNetworks = nets,
       excludedAddresses = addrs \<rparr>"

definition GetName :: "('ip, 'net) Provider \<Rightarrow> string" where
  "GetName p = name p"

definition GetHeaders :: "('ip, 'net) Provider \<Rightarrow> string list" where
  "GetHeaders p = headers p"

definition GetValues :: "('ip, 'net) Provider \<Rightarrow> (string \<rightharpoonup> string)" where
  "GetValues p = values' p"

definition getExcludedNetworks :: "('ip, 'net) Provider \<Rightarrow> 'net list" where
  "getExcludedNetworks p = excludedNetworks p"

definition getExcludedAddresses :: "('ip, 'net) Provider \<Rightarrow> 'ip list" where
  "getExcludedAddresses p = excludedAddresses p"

text \<open>
  \<^verbatim>\<open>isExcludedIP\<close> and \<^verbatim>\<open>fillValues\<close> have the same text in the three providers. The two
  loops of \<^verbatim>\<open>isExcludedIP\<close> return true at the first hit. \<^verbatim>\<open>fillValues\<close> writes into the
  provider's own map, which it never empties: the provider is returned updated.
\<close>

definition isExcludedIP :: "('ip, 'net) golib \<Rightarrow> ('ip, 'net) Provider \<Rightarrow> string \<Rightarrow> bool" where
  "isExcludedIP lib p address =
     (case ParseIP lib address of
        None \<Rightarrow> True
      | Some ip \<Rightarrow>
          if list_ex (\<lambda>excludedNetwork. Contains lib excludedNetwork ip) (getExcludedNetworks p)
          then True
          else if list_ex (\<lambda>excludedAddress. Equal lib ip excludedAddress) (getExcludedAddresses p)
          then True
          else False)"

definition fillValues_step ::
  "('ip, 'net) golib \<Rightarrow> Request \<Rightarrow> ('ip, 'net) Provider \<Rightarrow> string \<Rightarrow> ('ip, 'net) Provider" where
  "fillValues_step lib request p header =
     (let value = Header_Get lib (Header request) header
      in if value \<noteq> '''' then p\<lparr>values' := (values' p)(header \<mapsto> TrimSpace lib value)\<rparr> else p)"

definition fillValues ::
  "('ip, 'net) golib \<Rightarrow> ('ip, 'net) Provider \<Rightarrow> Request \<Rightarrow> ('ip, 'net) Provider" where
  "fillValues lib p request = foldl (fillValues_step lib request) p (GetHeaders p)"

text \<open>
  \<^verbatim>\<open>GenericProvider.GetRealIP\<close>: the provider after \<^verbatim>\<open>fillValues\<close>, and the address returned.
  \<open>firstNotExcluded\<close> is the loop that returns the first candidate that is not excluded
  and falls through to the empty string; \<open>Generic_forwardChain\<close> is the second
  \<^verbatim>\<open>if\<close> of the function with the \<^verbatim>\<open>return ""\<close> after it, reached when the first one
  has not returned.
\<close>

definition firstNotExcluded ::
  "('ip, 'net) golib \<Rightarrow> ('ip, 'net) Provider \<Rightarrow> string list \<Rightarrow> string" where
  "firstNotExcluded lib p candidates =
     (case find (\<lambda>ip. \<not> isExcludedIP lib p ip) candidates of Some ip \<Rightarrow> ip | None \<Rightarrow> '''')"

definition Generic_forwardChain ::
  "('ip, 'net) golib \<Rightarrow> ('ip, 'net) Provider \<Rightarrow> string" where
  "Generic_forwardChain lib gp =
     (case GetValues gp genericProviderXForwardedForHeader of
        Some value \<Rightarrow> firstNotExcluded lib gp (map (TrimSpace lib) (Split lib value '',''))
      | None \<Rightarrow> '''')"

definition Generic_GetRealIP ::
  "('ip, 'net) golib \<Rightarrow> ('ip, 'net) Provider \<Rightarrow> Request \<Rightarrow> ('ip, 'net) Provider \<times> string" where
  "Generic_GetRealIP lib gp0 request =
     (let gp = fillValues lib gp0 request in
      (gp,
       case GetValues gp genericProviderXRealIPHeader of
         Some value \<Rightarrow>
           if \<not> isExcludedIP lib gp value then value else Generic_forwardChain lib gp
       | None \<Rightarrow> Generic_forwardChain lib gp))"

text \<open>
  \<^verbatim>\<open>CloudflareProvider.GetRealIP\<close> and \<^verbatim>\<open>QratorProvider.GetRealIP\<close> have the same text: the
  first value of the map, in the order of the visit, that is not excluded.
\<close>

definition Range_GetRealIP ::
  "('ip, 'net) golib \<Rightarrow> string list \<Rightarrow> ('ip, 'net) Provider \<Rightarrow> Request
     \<Rightarrow> ('ip, 'net) Provider \<times> string" where
  "Range_GetRealIP lib order p0 request =
     (let p = fillValues lib p0 request in
      (p, firstNotExcluded lib p (range_values (GetValues p) order)))"

section \<open>The plugin (\<^verbatim>\<open>real_ip.go\<close>)\<close>

text \<open>
  \<^verbatim>\<open>Config.Providers\<close> is a slice that the constructor compares with \<^verbatim>\<open>nil\<close>: \<open>None\<close> is the
  \<^verbatim>\<open>nil\<close> slice, whose length is 0 and whose \<^verbatim>\<open>range\<close> loop has no iteration.
\<close>

record Config =
  ExcludedNetworks :: "string list"
  ExcludedAddresses :: "string list"
  Providers :: "string list option"
  PreferredProvider :: string

definition CreateConfig :: Config where
  "CreateConfig =
     \<lparr> ExcludedNetworks = [], ExcludedAddresses = [], Providers = Some [],
       PreferredProvider = '''' \<rparr>"

definition elems :: "'a list option \<Rightarrow> 'a list" where
  "elems s = (case s of None \<Rightarrow> [] | Some xs \<Rightarrow> xs)"

text \<open>
  The errors of construction: the error of \<^verbatim>\<open>net.ParseCIDR\<close> for a text, an error made by
  \<^verbatim>\<open>fmt.Errorf\<close> with its message, and the two error values of the providers package.
  The only failure while a request is served is a method called through a \<^verbatim>\<open>nil\<close> provider.
\<close>

datatype error =
    ParseError string
  | Errorf string
  | ErrorInvalidProvider
  | ErrorInvalidPreferredProvider

datatype panic = NilPointerDereference

text \<open>
  The fields that both revisions of \<^verbatim>\<open>TraefikRealIP\<close> have. \<^verbatim>\<open>excludedNetworks\<close> and
  \<^verbatim>\<open>excludedAddresses\<close> are written with the prefix \<open>trip_\<close>, the providers have fields of
  the same names. The field \<^verbatim>\<open>next\<close> is an argument of \<open>ServeHTTP\<close>; \<^verbatim>\<open>name\<close> is never read.
\<close>

record ('ip, 'net) TraefikRealIP_fields =
  trip_excludedNetworks :: "'net list"
  trip_excludedAddresses :: "'ip list"
  preferredProvider :: string
  providersIPs :: "string \<rightharpoonup> string"

definition GetExcludedNetworks :: "('ip, 'net, 'm) TraefikRealIP_fields_scheme \<Rightarrow> 'net list" where
  "GetExcludedNetworks trip = trip_excludedNetworks trip"

definition GetExcludedAddresses :: "('ip, 'net, 'm) TraefikRealIP_fields_scheme \<Rightarrow> 'ip list" where
  "GetExcludedAddresses trip = trip_excludedAddresses trip"

definition GetPreferredProvider :: "('ip, 'net, 'm) TraefikRealIP_fields_scheme \<Rightarrow> string" where
  "GetPreferredProvider trip = preferredProvider trip"

definition HasPreferredProvider :: "('ip, 'net, 'm) TraefikRealIP_fields_scheme \<Rightarrow> bool" where
  "HasPreferredProvider trip = (preferredProvider trip \<noteq> '''')"

text \<open>The two loops of \<^verbatim>\<open>New\<close> over the excluded networks and addresses (both revisions).\<close>

fun parseExcludedNetworks ::
  "('ip, 'net) golib \<Rightarrow> string list \<Rightarrow> 'net list \<Rightarrow> error + 'net list" where
  "parseExcludedNetworks lib [] acc = Inr acc"
| "parseExcludedNetworks lib (value # rest) acc =
     (case ParseCIDR lib value of
        None \<Rightarrow> Inl (ParseError value)
      | Some excludedNetwork \<Rightarrow> parseExcludedNetworks lib rest (acc @ [excludedNetwork]))"

fun parseExcludedAddresses ::
  "('ip, 'net) golib \<Rightarrow> string list \<Rightarrow> 'ip list \<Rightarrow> 'ip list" where
  "parseExcludedAddresses lib [] acc = acc"
| "parseExcludedAddresses lib (value # rest) acc =
     (case ParseIP lib value of
        Some ip \<Rightarrow> parseExcludedAddresses lib rest (acc @ [ip])
      | None \<Rightarrow> parseExcludedAddresses lib rest acc)"

text \<open>
  The order in which one call of \<open>ServeHTTP\<close> visits each map it ranges over: the values of
  the Cloudflare provider, the values of the Qrator provider and, in the revision with the
  provider interface, the providers in its first and in its second loop.
\<close>

record sched =
  rangeCloudflareValues :: "string list"
  rangeQratorValues :: "string list"
  rangeProvidersFirst :: "string list"
  rangeProvidersSecond :: "string list"

definition writeRealIP :: "('ip, 'net) golib \<Rightarrow> string \<Rightarrow> Request \<Rightarrow> Request" where
  "writeRealIP lib realIP request =
     (if realIP \<noteq> ''''
      then request\<lparr>Header :=
             Header_Set lib (Header_Set lib (Header request) ''X-Forwarded-For'' realIP)
               ''X-Real-Ip'' realIP\<rparr>
      else request)"

subsection \<open>The revision with one field per provider\<close>

record ('ip, 'net) TraefikRealIP = "('ip, 'net) TraefikRealIP_fields" +
  availableProviders :: "string list"
  genericProvider :: "('ip, 'net) Provider option"
  cloudflareProvider :: "('ip, 'net) Provider option"
  qratorProvider :: "('ip, 'net) Provider option"

definition IsValidProvider :: "('ip, 'net) TraefikRealIP \<Rightarrow> string \<Rightarrow> bool" where
  "IsValidProvider trip provider = list_ex (\<lambda>value. value = provider) (availableProviders trip)"

definition ConfigHasProvider :: "string \<Rightarrow> string list \<Rightarrow> bool" where
  "ConfigHasProvider provider providers = list_ex (\<lambda>value. value = provider) providers"

fun Join :: "string list \<Rightarrow> string \<Rightarrow> string" where
  "Join [] sep = ''''"
| "Join [x] sep = x"
| "Join (x # y # ys) sep = x @ sep @ Join (y # ys) sep"

definition New :: "('ip, 'net) golib \<Rightarrow> Config \<Rightarrow> error + ('ip, 'net) TraefikRealIP" where
  "New lib config =
     (let trip0 =
        \<lparr> trip_excludedNetworks = [], trip_excludedAddresses = [],
          preferredProvider = PreferredProvider config, providersIPs = Map.empty,
          availableProviders = [''generic'', ''cloudflare'', ''qrator''],
          genericProvider = None, cloudflareProvider = None, qratorProvider = None \<rparr>
      in
      case parseExcludedNetworks lib (ExcludedNetworks config) (trip_excludedNetworks trip0) of
        Inl err \<Rightarrow> Inl err
      | Inr nets \<Rightarrow>
         (let trip1 = trip0\<lparr>trip_excludedNetworks := nets\<rparr>;
              trip2 = trip1\<lparr>trip_excludedAddresses :=
                        parseExcludedAddresses lib (ExcludedAddresses config)
                          (trip_excludedAddresses trip1)\<rparr>
          in
          if PreferredProvider config \<noteq> '''' \<and> \<not> IsValidProvider trip2 (PreferredProvider config)
          then Inl (Errorf (''preferred provider '' @ PreferredProvider config
                 @ '' is not valid, only the following ones are supported: ''
                 @ Join (availableProviders trip2) '', ''))
          else
           (let trip3 = trip2\<lparr>genericProvider :=
                          Some (InitializeGenericProvider (GetExcludedNetworks trip2)
                                  (GetExcludedAddresses trip2))\<rparr>
            in
            case find (\<lambda>provider. \<not> IsValidProvider trip3 provider) (elems (Providers config)) of
              Some provider \<Rightarrow>
                Inl (Errorf (''provider '' @ provider
                  @ '' is not valid, only the following ones are supported: ''
                  @ Join (availableProviders trip3) '', ''))
            | None \<Rightarrow>
                if Providers config \<noteq> None \<or> length (elems (Providers config)) = 0
                then Inr (trip3
                  \<lparr>cloudflareProvider :=
                      Some (InitializeCloudflareProvider (GetExcludedNetworks trip3)
                              (GetExcludedAddresses trip3)),
                    qratorProvider :=
                      Some (InitializeQratorProvider (GetExcludedNetworks trip3)
                              (GetExcludedAddresses trip3))\<rparr>)
                else
                 (let trip4 =
                    (if ConfigHasProvider ''cloudflare'' (elems (Providers config))
                     then trip3\<lparr>cloudflareProvider :=
                            Some (InitializeCloudflareProvider (GetExcludedNetworks trip3)
                                    (GetExcludedAddresses trip3))\<rparr>
                     else trip3)
                  in Inr
                    (if ConfigHasProvider ''qrator'' (elems (Providers config))
                     then trip4\<lparr>qratorProvider :=
                            Some (InitializeQratorProvider (GetExcludedNetworks trip4)
                                    (GetExcludedAddresses trip4))\<rparr>
                     else trip4)))))"

text \<open>
  A call of \<^verbatim>\<open>GetRealIP\<close> through one of the three provider fields. The provider is a
  pointer: the call updates the provider's map of values in place, and panics when the
  pointer is \<^verbatim>\<open>nil\<close> (the first field read is \<^verbatim>\<open>headers\<close>).
\<close>

definition cloudflareGetRealIP ::
  "('ip, 'net) golib \<Rightarrow> sched \<Rightarrow> ('ip, 'net) TraefikRealIP \<Rightarrow> Request
     \<Rightarrow> panic + ('ip, 'net) TraefikRealIP \<times> string" where
  "cloudflareGetRealIP lib sch trip request =
     (case cloudflareProvider trip of
        None \<Rightarrow> Inl NilPointerDereference
      | Some cfp \<Rightarrow>
          (let (cfp', realIP) = Range_GetRealIP lib (rangeCloudflareValues sch) cfp request
           in Inr (trip\<lparr>cloudflareProvider := Some cfp'\<rparr>, realIP)))"

definition qratorGetRealIP ::
  "('ip, 'net) golib \<Rightarrow> sched \<Rightarrow> ('ip, 'net) TraefikRealIP \<Rightarrow> Request
     \<Rightarrow> panic + ('ip, 'net) TraefikRealIP \<times> string" where
  "qratorGetRealIP lib sch trip request =
     (case qratorProvider trip of
        None \<Rightarrow> Inl NilPointerDereference
      | Some qp \<Rightarrow>
          (let (qp', realIP) = Range_GetRealIP lib (rangeQratorValues sch) qp request
           in Inr (trip\<lparr>qratorProvider := Some qp'\<rparr>, realIP)))"

definition genericGetRealIP ::
  "('ip, 'net) golib \<Rightarrow> ('ip, 'net) TraefikRealIP \<Rightarrow> Request
     \<Rightarrow> panic + ('ip, 'net) TraefikRealIP \<times> string" where
  "genericGetRealIP lib trip request =
     (case genericProvider trip of
        None \<Rightarrow> Inl NilPointerDereference
      | Some gp \<Rightarrow>
          (let (gp', realIP) = Generic_GetRealIP lib gp request
           in Inr (trip\<lparr>genericProvider := Some gp'\<rparr>, realIP)))"

text \<open>
  \<^verbatim>\<open>ServeHTTP\<close> up to the assignment of \<^verbatim>\<open>realIP\<close> by the generic provider: the handler after
  the calls, and the value of \<^verbatim>\<open>realIP\<close>. The two tests of the preferred provider stand one
  after the other, as in the source.
\<close>

definition ServeHTTP_realIP ::
  "('ip, 'net) golib \<Rightarrow> sched \<Rightarrow> ('ip, 'net) TraefikRealIP \<Rightarrow> Request
     \<Rightarrow> panic + ('ip, 'net) TraefikRealIP \<times> string" where
  "ServeHTTP_realIP lib sch trip request =
     (case (if HasPreferredProvider trip
            then (case (if GetPreferredProvider trip = ''cloudflare''
                        then cloudflareGetRealIP lib sch trip request
                        else Inr (trip, '''')) of
                    Inl p \<Rightarrow> Inl p
                  | Inr (trip1, realIP) \<Rightarrow>
                      if GetPreferredProvider trip1 = ''qrator''
                      then qratorGetRealIP lib sch trip1 request
                      else Inr (trip1, realIP))
            else Inr (trip, '''')) of
        Inl p \<Rightarrow> Inl p
      | Inr (trip2, realIP) \<Rightarrow>
          if realIP = '''' then genericGetRealIP lib trip2 request else Inr (trip2, realIP))"

text \<open>
  \<^verbatim>\<open>ServeHTTP\<close>: the rest of the function writes the two headers when \<^verbatim>\<open>realIP\<close> is not
  empty and calls the next handler with the response writer and the request. The result is
  the handler after the call and what the next handler returns.
\<close>

definition ServeHTTP ::
  "('ip, 'net) golib \<Rightarrow> sched \<Rightarrow> ('w \<Rightarrow> Request \<Rightarrow> 'r) \<Rightarrow> ('ip, 'net) TraefikRealIP
     \<Rightarrow> 'w \<Rightarrow> Request \<Rightarrow> panic + ('ip, 'net) TraefikRealIP \<times> 'r" where
  "ServeHTTP lib sch nxt trip responseWriter request =
     (case ServeHTTP_realIP lib sch trip request of
        Inl p \<Rightarrow> Inl p
      | Inr (trip', realIP) \<Rightarrow>
          Inr (trip', nxt responseWriter (writeRealIP lib realIP request)))"

text \<open>
  \<^verbatim>\<open>ServeHTTP\<close> calls its providers through the three pointers; \<open>initialised\<close> says that
  none of them is \<^verbatim>\<open>nil\<close>.
\<close>

definition initialised :: "('ip, 'net) TraefikRealIP \<Rightarrow> bool" where
  "initialised trip =
     (genericProvider trip \<noteq> None \<and> cloudflareProvider trip \<noteq> None \<and> qratorProvider trip \<noteq> None)"

subsection \<open>The revision with the provider interface\<close>

text \<open>
  \<^verbatim>\<open>ProviderInterface\<close> is implemented by the three provider structs; a value of the
  interface is one of them. The \<^verbatim>\<open>Initialize\<close> method of the generic provider builds what
  \<^verbatim>\<open>InitializeGenericProvider\<close> builds. \<^verbatim>\<open>Providers\<close>, a struct with the single field
  \<^verbatim>\<open>providers\<close>, is that map.
\<close>

datatype ('ip, 'net) ProviderInterface =
    GenericProvider "('ip, 'net) Provider"
  | CloudflareProvider "('ip, 'net) Provider"
  | QratorProvider "('ip, 'net) Provider"

type_synonym ('ip, 'net) ProvidersMap = "string \<rightharpoonup> ('ip, 'net) ProviderInterface"

fun Interface_GetName :: "('ip, 'net) ProviderInterface \<Rightarrow> string" where
  "Interface_GetName (GenericProvider gp) = GetName gp"
| "Interface_GetName (CloudflareProvider cfp) = GetName cfp"
| "Interface_GetName (QratorProvider qp) = GetName qp"

fun Interface_GetValues :: "('ip, 'net) ProviderInterface \<Rightarrow> (string \<rightharpoonup> string)" where
  "Interface_GetValues (GenericProvider gp) = GetValues gp"
| "Interface_GetValues (CloudflareProvider cfp) = GetValues cfp"
| "Interface_GetValues (QratorProvider qp) = GetValues qp"

fun Interface_GetRealIP ::
  "('ip, 'net) golib \<Rightarrow> sched \<Rightarrow> ('ip, 'net) ProviderInterface \<Rightarrow> Request
     \<Rightarrow> ('ip, 'net) ProviderInterface \<times> string" where
  "Interface_GetRealIP lib sch (GenericProvider gp) request =
     (let (gp', realIP) = Generic_GetRealIP lib gp request in (GenericProvider gp', realIP))"
| "Interface_GetRealIP lib sch (CloudflareProvider cfp) request =
     (let (cfp', realIP) = Range_GetRealIP lib (rangeCloudflareValues sch) cfp request
      in (CloudflareProvider cfp', realIP))"
| "Interface_GetRealIP lib sch (QratorProvider qp) request =
     (let (qp', realIP) = Range_GetRealIP lib (rangeQratorValues sch) qp request
      in (QratorProvider qp', realIP))"

definition Initialize :: "'net list \<Rightarrow> 'ip list \<Rightarrow> ('ip, 'net) ProvidersMap" where
  "Initialize excludedNets excludedAddrs =
     [''generic'' \<mapsto> GenericProvider (InitializeGenericProvider excludedNets excludedAddrs),
      ''cloudflare'' \<mapsto> CloudflareProvider (InitializeCloudflareProvider excludedNets excludedAddrs),
      ''qrator'' \<mapsto> QratorProvider (InitializeQratorProvider excludedNets excludedAddrs)]"

text \<open>
  \<^verbatim>\<open>IsValidProvider\<close> of the providers package compares the name with every key of the map,
  in whatever order \<^verbatim>\<open>GetAvailableProviders\<close> lists them: the name is a key of the map.
\<close>

definition Providers_IsValidProvider :: "('ip, 'net) ProvidersMap \<Rightarrow> string \<Rightarrow> bool" where
  "Providers_IsValidProvider manager provider = (manager provider \<noteq> None)"

definition Providers_GetProvider ::
  "('ip, 'net) ProvidersMap \<Rightarrow> string \<Rightarrow> ('ip, 'net) ProviderInterface option" where
  "Providers_GetProvider manager provider = manager provider"

definition Providers_GetProviders :: "('ip, 'net) ProvidersMap \<Rightarrow> ('ip, 'net) ProvidersMap" where
  "Providers_GetProviders manager = manager"

record ('ip, 'net) TraefikRealIP_iface = "('ip, 'net) TraefikRealIP_fields" +
  providers :: "('ip, 'net) ProvidersMap"

definition GetProviders :: "('ip, 'net) TraefikRealIP_iface \<Rightarrow> ('ip, 'net) ProvidersMap" where
  "GetProviders trip = providers trip"

text \<open>
  The loop of \<^verbatim>\<open>New\<close> over the configured providers: each name is lower-cased and trimmed,
  then looked up; the first name that is not valid ends the construction.
\<close>

fun enableProviders ::
  "('ip, 'net) golib \<Rightarrow> ('ip, 'net) ProvidersMap \<Rightarrow> string list \<Rightarrow> ('ip, 'net) ProvidersMap
     \<Rightarrow> error + ('ip, 'net) ProvidersMap" where
  "enableProviders lib manager [] enabled = Inr enabled"
| "enableProviders lib manager (value # rest) enabled =
     (let provider = TrimSpace lib (ToLower lib value)
      in if Providers_IsValidProvider manager provider
         then enableProviders lib manager rest
                (enabled(provider := Providers_GetProvider manager provider))
         else Inl ErrorInvalidProvider)"

definition New_iface ::
  "('ip, 'net) golib \<Rightarrow> Config \<Rightarrow> error + ('ip, 'net) TraefikRealIP_iface" where
  "New_iface lib config =
     (let trip0 =
        \<lparr> trip_excludedNetworks = [], trip_excludedAddresses = [],
          preferredProvider = PreferredProvider config, providersIPs = Map.empty,
          providers = Map.empty \<rparr>
      in
      case parseExcludedNetworks lib (ExcludedNetworks config) (trip_excludedNetworks trip0) of
        Inl err \<Rightarrow> Inl err
      | Inr nets \<Rightarrow>
         (let trip1 = trip0\<lparr>trip_excludedNetworks := nets\<rparr>;
              trip2 = trip1\<lparr>trip_excludedAddresses :=
                        parseExcludedAddresses lib (ExcludedAddresses config)
                          (trip_excludedAddresses trip1)\<rparr>;
              manager = Initialize (GetExcludedNetworks trip2) (GetExcludedAddresses trip2)
          in
          if PreferredProvider config \<noteq> ''''
             \<and> \<not> Providers_IsValidProvider manager (PreferredProvider config)
          then Inl ErrorInvalidPreferredProvider
          else if length (elems (Providers config)) = 0
          then Inr (trip2\<lparr>providers := Providers_GetProviders manager\<rparr>)
          else
           (case enableProviders lib manager (elems (Providers config)) (providers trip2) of
              Inl err \<Rightarrow> Inl err
            | Inr enabled \<Rightarrow>
                Inr (trip2\<lparr>providers :=
                       (if enabled ''generic'' = None
                        then enabled(''generic'' := Providers_GetProvider manager ''generic'')
                        else enabled)\<rparr>))))"

text \<open>
  The first loop of \<^verbatim>\<open>ServeHTTP\<close>: one step for the provider stored under a name, and the
  loop over the names in the order of the visit.
\<close>

definition recordRealIP ::
  "('ip, 'net) golib \<Rightarrow> sched \<Rightarrow> Request \<Rightarrow> ('ip, 'net) TraefikRealIP_iface \<Rightarrow> string
     \<Rightarrow> ('ip, 'net) TraefikRealIP_iface" where
  "recordRealIP lib sch request trip providerName =
     (case GetProviders trip providerName of
        None \<Rightarrow> trip
      | Some providerInstance \<Rightarrow>
          (let (providerInstance', realIP) = Interface_GetRealIP lib sch providerInstance request;
               trip' = trip\<lparr>providers := (providers trip)(providerName \<mapsto> providerInstance')\<rparr>
           in if realIP \<noteq> ''''
              then trip'\<lparr>providersIPs := (providersIPs trip')(providerName \<mapsto> realIP)\<rparr>
              else trip'))"

text \<open>
  The loop of \<^verbatim>\<open>ServeHTTP\<close> that runs when no provider is preferred: the first provider, in
  the order of the visit, whose name has a recorded address gives \<^verbatim>\<open>realIP\<close>; without one
  \<^verbatim>\<open>realIP\<close> keeps its value.
\<close>

fun firstRecorded ::
  "('ip, 'net) ProvidersMap \<Rightarrow> (string \<rightharpoonup> string) \<Rightarrow> string list \<Rightarrow> string \<Rightarrow> string" where
  "firstRecorded ps ips [] realIP = realIP"
| "firstRecorded ps ips (k # ks) realIP =
     (case ps k of
        None \<Rightarrow> firstRecorded ps ips ks realIP
      | Some provider \<Rightarrow>
          (case ips (Interface_GetName provider) of
             Some recorded \<Rightarrow> recorded
           | None \<Rightarrow> firstRecorded ps ips ks realIP))"

definition ServeHTTP_iface_realIP ::
  "('ip, 'net) golib \<Rightarrow> sched \<Rightarrow> ('ip, 'net) TraefikRealIP_iface \<Rightarrow> Request
     \<Rightarrow> ('ip, 'net) TraefikRealIP_iface \<times> string" where
  "ServeHTTP_iface_realIP lib sch trip request =
     (let trip1 = foldl (recordRealIP lib sch request) trip (rangeProvidersFirst sch);
          (trip2, realIP) =
            (case providersIPs trip1 ''generic'' of
               Some recorded \<Rightarrow>
                 (trip1\<lparr>providersIPs := (providersIPs trip1)(''generic'' := None)\<rparr>, recorded)
             | None \<Rightarrow> (trip1, ''''))
      in
      (trip2,
       if dom (providersIPs trip2) \<noteq> {}
       then (if HasPreferredProvider trip2
             then (case providersIPs trip2 (GetPreferredProvider trip2) of
                     Some recorded \<Rightarrow> recorded
                   | None \<Rightarrow> realIP)
             else firstRecorded (GetProviders trip2) (providersIPs trip2)
                    (rangeProvidersSecond sch) realIP)
       else realIP))"

definition ServeHTTP_iface ::
  "('ip, 'net) golib \<Rightarrow> sched \<Rightarrow> ('w \<Rightarrow> Request \<Rightarrow> 'r) \<Rightarrow> ('ip, 'net) TraefikRealIP_iface
     \<Rightarrow> 'w \<Rightarrow> Request \<Rightarrow> ('ip, 'net) TraefikRealIP_iface \<times> 'r" where
  "ServeHTTP_iface lib sch nxt trip responseWriter request =
     (let (trip', realIP) = ServeHTTP_iface_realIP lib sch trip request
      in (trip', nxt responseWriter (writeRealIP lib realIP request)))"

section \<open>A concrete library for evaluating examples\<close>

text \<open>
  For the examples the parameters are instantiated with the behaviour of the Go library on
  ASCII text and dotted-decimal IPv4 addresses: an address is its four octets, a network is
  an address with a prefix length. Text that is not of this form (IPv6, Unicode white
  space) is outside the examples.
\<close>

fun split_on :: "char \<Rightarrow> string \<Rightarrow> string list" where
  "split_on c [] = [[]]"
| "split_on c (x # xs) =
     (if x = c then [] # split_on c xs
      else (case split_on c xs of [] \<Rightarrow> [[x]] | y # ys \<Rightarrow> (x # y) # ys))"

definition is_digit :: "char \<Rightarrow> bool" where
  "is_digit c = (48 \<le> (of_char c :: nat) \<and> (of_char c :: nat) \<le> 57)"

definition dec_value :: "string \<Rightarrow> int" where
  "dec_value s = foldl (\<lambda>n c. 10 * n + ((of_char c :: int) - 48)) 0 s"

definition parse_dec :: "int \<Rightarrow> string \<Rightarrow> int option" where
  "parse_dec bound s =
     (if s \<noteq> [] \<and> list_all is_digit s \<and> length s \<le> 3
         \<and> (length s = 1 \<or> hd s \<noteq> CHR ''0'') \<and> dec_value s \<le> bound
      then Some (dec_value s) else None)"

definition ParseIP4 :: "string \<Rightarrow> int list option" where
  "ParseIP4 s =
     (let fields = map (parse_dec 255) (split_on CHR ''.'' s)
      in if length fields = 4 \<and> list_all (\<lambda>f. f \<noteq> None) fields
         then Some (map the fields) else None)"

definition ParseCIDR4 :: "string \<Rightarrow> (int list \<times> nat) option" where
  "ParseCIDR4 s =
     (case split_on CHR ''/'' s of
        [addrText, maskText] \<Rightarrow>
          (case (ParseIP4 addrText, parse_dec 32 maskText) of
             (Some ip, Some n) \<Rightarrow> Some (ip, nat n)
           | _ \<Rightarrow> None)
      | _ \<Rightarrow> None)"

definition ip_number :: "int list \<Rightarrow> int" where
  "ip_number ip = foldl (\<lambda>n octet. 256 * n + octet) 0 ip"

definition Contains4 :: "int list \<times> nat \<Rightarrow> int list \<Rightarrow> bool" where
  "Contains4 network ip =
     (ip_number ip div 2 ^ (32 - snd network) = ip_number (fst network) div 2 ^ (32 - snd network))"

definition ascii_space :: "char \<Rightarrow> bool" where
  "ascii_space c = (c \<in> set [CHR 0x09, CHR 0x0A, CHR 0x0B, CHR 0x0C, CHR 0x0D, CHR '' ''])"

definition TrimSpace_ascii :: "string \<Rightarrow> string" where
  "TrimSpace_ascii s = rev (dropWhile ascii_space (rev (dropWhile ascii_space s)))"

definition is_upper :: "char \<Rightarrow> bool" where
  "is_upper c = (65 \<le> (of_char c :: nat) \<and> (of_char c :: nat) \<le> 90)"

definition is_lower :: "char \<Rightarrow> bool" where
  "is_lower c = (97 \<le> (of_char c :: nat) \<and> (of_char c :: nat) \<le> 122)"

definition to_lower :: "char \<Rightarrow> char" where
  "to_lower c = (if is_upper c then char_of ((of_char c :: nat) + 32) else c)"

definition to_upper :: "char \<Rightarrow> char" where
  "to_upper c = (if is_lower c then char_of ((of_char c :: nat) - 32) else c)"

definition ToLower_ascii :: "string \<Rightarrow> string" where
  "ToLower_ascii s = map to_lower s"

definition validHeaderFieldByte :: "char \<Rightarrow> bool" where
  "validHeaderFieldByte c =
     (is_upper c \<or> is_lower c \<or> is_digit c \<or> c \<in> set ''!#$%&*+-.^_|~''
      \<or> c = CHR 0x27 \<or> c = CHR 0x60)"

fun canonical_from :: "bool \<Rightarrow> string \<Rightarrow> string" where
  "canonical_from upper [] = []"
| "canonical_from upper (c # cs) =
     (let c' = (if upper then to_upper c else to_lower c)
      in c' # canonical_from (c' = CHR ''-'') cs)"

definition CanonicalMIMEHeaderKey_ascii :: "string \<Rightarrow> string" where
  "CanonicalMIMEHeaderKey_ascii s =
     (if list_all validHeaderFieldByte s then canonical_from True s else s)"

definition Split_ascii :: "string \<Rightarrow> string \<Rightarrow> string list" where
  "Split_ascii s sep = (case sep of [c] \<Rightarrow> split_on c s | _ \<Rightarrow> [s])"

definition ipv4_lib :: "(int list, int list \<times> nat) golib" where
  "ipv4_lib =
     \<lparr> ParseIP = ParseIP4,
       ParseCIDR = ParseCIDR4,
       Contains = Contains4,
       Equal = (\<lambda>a b. a = b),
       TrimSpace = TrimSpace_ascii,
       ToLower = ToLower_ascii,
       Split = Split_ascii,
       CanonicalMIMEHeaderKey = CanonicalMIMEHeaderKey_ascii \<rparr>"

section \<open>Serving several requests with one handler\<close>

text \<open>
  A handler serves its requests one after the other, each with its own order of visit;
  \<open>ServeHTTP_sequence\<close> is the handler after the last request and the list of the addresses
  that the calls resolved.
\<close>

fun ServeHTTP_sequence ::
  "('ip, 'net) golib \<Rightarrow> ('ip, 'net) TraefikRealIP \<Rightarrow> (sched \<times> Request) list
     \<Rightarrow> panic + ('ip, 'net) TraefikRealIP \<times> string list" where
  "ServeHTTP_sequence lib trip [] = Inr (trip, [])"
| "ServeHTTP_sequence lib trip (call # calls) =
     (case ServeHTTP_realIP lib (fst call) trip (snd call) of
        Inl p \<Rightarrow> Inl p
      | Inr (trip', realIP) \<Rightarrow>
          (case ServeHTTP_sequence lib trip' calls of
             Inl p \<Rightarrow> Inl p
           | Inr (trip'', realIPs) \<Rightarrow> Inr (trip'', realIP # realIPs)))"

fun ServeHTTP_iface_sequence ::
  "('ip, 'net) golib \<Rightarrow> ('ip, 'net) TraefikRealIP_iface \<Rightarrow> (sched \<times> Request) list
     \<Rightarrow> ('ip, 'net) TraefikRealIP_iface \<times> string list" where
  "ServeHTTP_iface_sequence lib trip [] = (trip, [])"
| "ServeHTTP_iface_sequence lib trip (call # calls) =
     (let (trip', realIP) = ServeHTTP_iface_realIP lib (fst call) trip (snd call);
          (trip'', realIPs) = ServeHTTP_iface_sequence lib trip' calls
      in (trip'', realIP # realIPs))"

text \<open>
  \<^verbatim>\<open>ServeHTTP\<close> called twice on the same request object: the second call reads the request
  as the first call has left it, with the two headers written when an address was
  resolved. The result is the pair of the addresses that the two calls resolved.
\<close>

definition ServeHTTP_twice ::
  "('ip, 'net) golib \<Rightarrow> sched \<Rightarrow> sched \<Rightarrow> ('ip, 'net) TraefikRealIP \<Rightarrow> Request
     \<Rightarrow> panic + string \<times> string" where
  "ServeHTTP_twice lib sch1 sch2 trip request =
     (case ServeHTTP_realIP lib sch1 trip request of
        Inl p \<Rightarrow> Inl p
      | Inr (trip1, realIP1) \<Rightarrow>
          (case ServeHTTP_realIP lib sch2 trip1 (writeRealIP lib realIP1 request) of
             Inl p \<Rightarrow> Inl p
           | Inr (trip2, realIP2) \<Rightarrow> Inr (realIP1, realIP2)))"

definition ServeHTTP_iface_twice ::
  "('ip, 'net) golib \<Rightarrow> sched \<Rightarrow> sched \<Rightarrow> ('ip, 'net) TraefikRealIP_iface \<Rightarrow> Request
     \<Rightarrow> string \<times> string" where
  "ServeHTTP_iface_twice lib sch1 sch2 trip request =
     (let (trip1, realIP1) = ServeHTTP_iface_realIP lib sch1 trip request;
          (trip2, realIP2) = ServeHTTP_iface_realIP lib sch2 trip1 (writeRealIP lib realIP1 request)
      in (realIP1, realIP2))"

section \<open>What the proofs assume of the library and of the handlers\<close>

text \<open>
  Two facts of the Go library: \<^verbatim>\<open>net.ParseIP\<close> accepts no text with white space around it,
  so a text that parses is its own \<^verbatim>\<open>strings.TrimSpace\<close>; and the canonical forms of the
  Cloudflare and Qrator header names differ from those of \<^verbatim>\<open>X-Forwarded-For\<close> and
  \<^verbatim>\<open>X-Real-Ip\<close>.
\<close>

definition golib_laws :: "('ip, 'net) golib \<Rightarrow> bool" where
  "golib_laws lib =
     ((\<forall>s. ParseIP lib s \<noteq> None \<longrightarrow> TrimSpace lib s = s) \<and>
      (\<forall>h \<in> {''True-Client-IP'', ''CF-Connecting-IP'', ''X-Qrator-IP-Source''}.
         CanonicalMIMEHeaderKey lib h \<noteq> CanonicalMIMEHeaderKey lib ''X-Forwarded-For'' \<and>
         CanonicalMIMEHeaderKey lib h \<noteq> CanonicalMIMEHeaderKey lib ''X-Real-Ip''))"

text \<open>
  The providers of a handler as the constructors build them and as \<^verbatim>\<open>ServeHTTP\<close> keeps them:
  each provider is there with its own list of headers, whatever its map of values holds.
  In the revision with the provider interface, each provider is stored under its name and
  no address is recorded for \<^verbatim>\<open>generic\<close> between two calls.
\<close>

definition providers_as_built :: "('ip, 'net) TraefikRealIP \<Rightarrow> bool" where
  "providers_as_built trip =
     ((\<exists>gp. genericProvider trip = Some gp \<and> headers gp = [''X-Forwarded-For'', ''X-Real-Ip'']) \<and>
      (\<exists>cfp. cloudflareProvider trip = Some cfp \<and>
              headers cfp = [''True-Client-IP'', ''CF-Connecting-IP'']) \<and>
      (\<exists>qp. qratorProvider trip = Some qp \<and> headers qp = [''X-Qrator-IP-Source'']))"

fun entry_as_built :: "string \<Rightarrow> ('ip, 'net) ProviderInterface \<Rightarrow> bool" where
  "entry_as_built k (GenericProvider gp) =
     (k = ''generic'' \<and> headers gp = [''X-Forwarded-For'', ''X-Real-Ip''])"
| "entry_as_built k (CloudflareProvider cfp) =
     (k = ''cloudflare'' \<and> headers cfp = [''True-Client-IP'', ''CF-Connecting-IP''])"
| "entry_as_built k (QratorProvider qp) =
     (k = ''qrator'' \<and> headers qp = [''X-Qrator-IP-Source''])"

definition iface_as_built :: "('ip, 'net) TraefikRealIP_iface \<Rightarrow> bool" where
  "iface_as_built trip =
     ((\<forall>k inst. providers trip k = Some inst \<longrightarrow> entry_as_built k inst) \<and>
      providersIPs trip ''generic'' = None)"

section \<open>Example inputs\<close>

text \<open>
  The test of the repository builds a request with \<^verbatim>\<open>request.Header.Set(key, value)\<close> for
  each header of a test case; \<open>requestWithHeaders\<close> does the same from an empty header.
\<close>

definition requestWithHeaders :: "('ip, 'net) golib \<Rightarrow> (string \<times> string) list \<Rightarrow> Request" where
  "requestWithHeaders lib kvs =
     \<lparr> Header = foldl (\<lambda>h kv. Header_Set lib h (fst kv) (snd kv)) Map.empty kvs \<rparr>"

text \<open>The headers of the test case in which the Qrator provider's result is preferred.\<close>

definition headersAllProviders :: "(string \<times> string) list" where
  "headersAllProviders =
     [(''X-Forwarded-For'', ''10.0.0.20''), (''X-Real-Ip'', ''10.0.0.20''),
      (''X-Qrator-IP-Source'', ''10.0.0.30''), (''True-Client-IP'', ''10.0.0.40''),
      (''CF-Connecting-IP'', ''10.0.0.40'')]"

text \<open>The headers of the test case in which Qrator is preferred and sends no header.\<close>

definition headersNoQrator :: "(string \<times> string) list" where
  "headersNoQrator =
     [(''X-Forwarded-For'', ''10.0.0.20''), (''X-Real-Ip'', ''10.0.0.20''),
      (''True-Client-IP'', ''10.0.0.40''), (''CF-Connecting-IP'', ''10.0.0.40'')]"

text \<open>A request with the two Cloudflare headers, holding different addresses.\<close>

definition headersTwoCloudflare :: "(string \<times> string) list" where
  "headersTwoCloudflare =
     [(''True-Client-IP'', ''10.0.0.40''), (''CF-Connecting-IP'', ''10.0.0.41'')]"

text \<open>One order of visit for every map: the order in which the source lists the keys.\<close>

definition sourceOrder :: sched where
  "sourceOrder =
     \<lparr> rangeCloudflareValues = [''True-Client-IP'', ''CF-Connecting-IP''],
       rangeQratorValues = [''X-Qrator-IP-Source''],
       rangeProvidersFirst = [''generic'', ''cloudflare'', ''qrator''],
       rangeProvidersSecond = [''generic'', ''cloudflare'', ''qrator''] \<rparr>"

text \<open>
  The configuration of the test cases that prefer a provider, \<^verbatim>\<open>&Config{PreferredProvider: p}\<close>
  (the other fields are \<^verbatim>\<open>nil\<close>), and the handlers that the two constructors build from it.
\<close>

definition configPreferring :: "string \<Rightarrow> Config" where
  "configPreferring p =
     \<lparr> ExcludedNetworks = [], ExcludedAddresses = [], Providers = None, PreferredProvider = p \<rparr>"

definition freshHandler :: "string \<Rightarrow> (int list, int list \<times> nat) TraefikRealIP" where
  "freshHandler p =
     \<lparr> trip_excludedNetworks = [], trip_excludedAddresses = [],
       preferredProvider = p, providersIPs = Map.empty,
       availableProviders = [''generic'', ''cloudflare'', ''qrator''],
       genericProvider = Some (InitializeGenericProvider [] []),
       cloudflareProvider = Some (InitializeCloudflareProvider [] []),
       qratorProvider = Some (InitializeQratorProvider [] []) \<rparr>"

definition freshHandler_iface :: "string \<Rightarrow> (int list, int list \<times> nat) TraefikRealIP_iface" where
  "freshHandler_iface p =
     \<lparr> trip_excludedNetworks = [], trip_excludedAddresses = [],
       preferredProvider = p, providersIPs = Map.empty,
       providers = Initialize [] [] \<rparr>"

section \<open>Evaluation of the concrete library\<close>

lemma ipv4_lib_sel:
  "ParseIP ipv4_lib = ParseIP4" "ParseCIDR ipv4_lib = ParseCIDR4" "Contains ipv4_lib = Contains4"
  "Equal ipv4_lib = (\<lambda>a b. a = b)" "TrimSpace ipv4_lib = TrimSpace_ascii"
  "ToLower ipv4_lib = ToLower_ascii" "Split ipv4_lib = Split_ascii"
  "CanonicalMIMEHeaderKey ipv4_lib = CanonicalMIMEHeaderKey_ascii"
  by (simp_all add: ipv4_lib_def)

lemma canon_eval:
  "CanonicalMIMEHeaderKey_ascii ''X-Forwarded-For'' = ''X-Forwarded-For''"
  "CanonicalMIMEHeaderKey_ascii ''X-Real-Ip'' = ''X-Real-Ip''"
  "CanonicalMIMEHeaderKey_ascii ''True-Client-IP'' = ''True-Client-Ip''"
  "CanonicalMIMEHeaderKey_ascii ''CF-Connecting-IP'' = ''Cf-Connecting-Ip''"
  "CanonicalMIMEHeaderKey_ascii ''X-Qrator-IP-Source'' = ''X-Qrator-Ip-Source''"
  by code_simp+

lemma parse_eval:
  "ParseIP4 ''10.0.0.1'' = Some [10, 0, 0, 1]"
  "ParseIP4 ''10.0.0.20'' = Some [10, 0, 0, 20]"
  "ParseIP4 ''10.0.0.30'' = Some [10, 0, 0, 30]"
  "ParseIP4 ''10.0.0.40'' = Some [10, 0, 0, 40]"
  "ParseIP4 ''10.0.0.41'' = Some [10, 0, 0, 41]"
  "ParseIP4 ''10.0.0.99'' = Some [10, 0, 0, 99]"
  "ParseIP4 ''127.0.0.2'' = Some [127, 0, 0, 2]"
  "ParseIP4 ''not-an-ip'' = None"
  "ParseIP4 ''invalid'' = None"
  "ParseCIDR4 ''127.0.0.1/24'' = Some ([127, 0, 0, 1], 24)"
  "ParseCIDR4 ''invalid'' = None"
  by code_simp+

lemma contains_eval:
  "Contains4 ([127, 0, 0, 1], 24) [127, 0, 0, 2]"
  "\<not> Contains4 ([127, 0, 0, 1], 24) [10, 0, 0, 20]"
  by code_simp+

lemma trim_eval:
  "TrimSpace_ascii ''10.0.0.1'' = ''10.0.0.1''"
  "TrimSpace_ascii ''10.0.0.20'' = ''10.0.0.20''"
  "TrimSpace_ascii ''10.0.0.30'' = ''10.0.0.30''"
  "TrimSpace_ascii ''10.0.0.40'' = ''10.0.0.40''"
  "TrimSpace_ascii ''10.0.0.41'' = ''10.0.0.41''"
  "TrimSpace_ascii ''10.0.0.99'' = ''10.0.0.99''"
  "TrimSpace_ascii '' 10.0.0.20 '' = ''10.0.0.20''"
  "TrimSpace_ascii ''qrator'' = ''qrator''"
  by code_simp+

lemma split_eval:
  "Split_ascii ''10.0.0.20'' '','' = [''10.0.0.20'']"
  "Split_ascii ''10.0.0.30'' '','' = [''10.0.0.30'']"
  "Split_ascii ''10.0.0.40'' '','' = [''10.0.0.40'']"
  "Split_ascii ''10.0.0.41'' '','' = [''10.0.0.41'']"
  "Split_ascii ''10.0.0.99'' '','' = [''10.0.0.99'']"
  by code_simp+

lemma lower_eval:
  "ToLower_ascii ''Qrator'' = ''qrator''"
  "ToLower_ascii ''qrator'' = ''qrator''"
  by code_simp+

lemmas lib_eval = ipv4_lib_sel canon_eval parse_eval contains_eval trim_eval split_eval lower_eval

lemmas provider_eval = Header_Get_def Header_Set_def range_values_def List.map_filter_def
  genericProviderXForwardedForHeader_def genericProviderXRealIPHeader_def
  cloudflareProviderTrueClientIPHeader_def cloudflareProviderCFConnectingIPHeader_def
  qratorProviderXQratorIPSourceHeader_def InitializeGenericProvider_def
  InitializeCloudflareProvider_def InitializeQratorProvider_def GetName_def GetHeaders_def
  GetValues_def getExcludedNetworks_def getExcludedAddresses_def isExcludedIP_def
  fillValues_step_def fillValues_def firstNotExcluded_def Generic_forwardChain_def
  Generic_GetRealIP_def Range_GetRealIP_def

section \<open>The exclusion test\<close>

text \<open>
  Claim C3. For every candidate string the exclusion test of a provider returns true when
  the string does not parse as an IP address; for a string that parses, it returns true
  exactly when the address lies inside one of the provider's excluded networks or equals
  one of its excluded addresses, and false otherwise.
\<close>

theorem isExcludedIP_fail_closed:
  "(ParseIP lib address = None \<longrightarrow> isExcludedIP lib p address) \<and>
   (\<forall>ip. ParseIP lib address = Some ip \<longrightarrow>
      isExcludedIP lib p address =
        ((\<exists>network \<in> set (excludedNetworks p). Contains lib network ip) \<or>
         (\<exists>excluded \<in> set (excludedAddresses p). Equal lib ip excluded)))"
  by (simp add: isExcludedIP_def getExcludedNetworks_def getExcludedAddresses_def list_ex_iff)

theorem isExcludedIP_fail_closed_witness:
  "ParseIP ipv4_lib ''not-an-ip'' = None \<and>
   isExcludedIP ipv4_lib (InitializeGenericProvider [([127, 0, 0, 1], 24)] [[10, 0, 0, 1]])
     ''not-an-ip'' \<and>
   ParseIP ipv4_lib ''127.0.0.2'' = Some [127, 0, 0, 2] \<and>
   isExcludedIP ipv4_lib (InitializeGenericProvider [([127, 0, 0, 1], 24)] [[10, 0, 0, 1]])
     ''127.0.0.2'' \<and>
   ParseIP ipv4_lib ''10.0.0.1'' = Some [10, 0, 0, 1] \<and>
   isExcludedIP ipv4_lib (InitializeGenericProvider [([127, 0, 0, 1], 24)] [[10, 0, 0, 1]])
     ''10.0.0.1'' \<and>
   ParseIP ipv4_lib ''10.0.0.20'' = Some [10, 0, 0, 20] \<and>
   \<not> isExcludedIP ipv4_lib (InitializeGenericProvider [([127, 0, 0, 1], 24)] [[10, 0, 0, 1]])
     ''10.0.0.20''"
proof -
  let ?p = "InitializeGenericProvider [([127, 0, 0, 1], 24)] [[10 :: int, 0, 0, 1]]"
  have nets: "excludedNetworks ?p = [([127, 0, 0, 1], 24)]"
    and addrs: "excludedAddresses ?p = [[10, 0, 0, 1]]"
    by (simp_all add: InitializeGenericProvider_def)
  have p0: "ParseIP ipv4_lib ''not-an-ip'' = None"
    and p1: "ParseIP ipv4_lib ''127.0.0.2'' = Some [127, 0, 0, 2]"
    and p2: "ParseIP ipv4_lib ''10.0.0.1'' = Some [10, 0, 0, 1]"
    and p3: "ParseIP ipv4_lib ''10.0.0.20'' = Some [10, 0, 0, 20]"
    by (simp_all add: lib_eval)
  have c: "Contains4 ([127, 0, 0, 1], 24) [10, 0, 0, 1] = False"
    by code_simp
  from isExcludedIP_fail_closed [of ipv4_lib "''not-an-ip''" ?p] p0
  have e0: "isExcludedIP ipv4_lib ?p ''not-an-ip''" by blast
  from isExcludedIP_fail_closed [of ipv4_lib "''127.0.0.2''" ?p] p1
  have e1: "isExcludedIP ipv4_lib ?p ''127.0.0.2''"
    by (simp add: nets addrs lib_eval)
  from isExcludedIP_fail_closed [of ipv4_lib "''10.0.0.1''" ?p] p2
  have e2: "isExcludedIP ipv4_lib ?p ''10.0.0.1''"
    by (simp add: nets addrs lib_eval)
  from isExcludedIP_fail_closed [of ipv4_lib "''10.0.0.20''" ?p] p3
  have e3: "\<not> isExcludedIP ipv4_lib ?p ''10.0.0.20''"
    by (simp add: nets addrs lib_eval c)
  from p0 e0 p1 e1 p2 e2 p3 e3 show ?thesis by blast
qed

section \<open>The headers of the generic provider\<close>

lemma foldl_fillValues_step:
  "foldl (fillValues_step lib request) p hs =
     p\<lparr>values' := (\<lambda>h. if h \<in> set hs \<and> Header_Get lib (Header request) h \<noteq> ''''
                        then Some (TrimSpace lib (Header_Get lib (Header request) h))
                        else values' p h)\<rparr>"
proof (induction hs arbitrary: p)
  case Nil
  show ?case by simp
next
  case (Cons x xs)
  show ?case
    by (simp add: Cons.IH) (auto simp: fillValues_step_def Let_def fun_eq_iff)
qed

lemma fillValues_eq:
  "fillValues lib p request =
     p\<lparr>values' := (\<lambda>h. if h \<in> set (headers p) \<and> Header_Get lib (Header request) h \<noteq> ''''
                        then Some (TrimSpace lib (Header_Get lib (Header request) h))
                        else values' p h)\<rparr>"
  by (simp add: fillValues_def GetHeaders_def foldl_fillValues_step)

lemma isExcludedIP_values [simp]:
  "isExcludedIP lib (p\<lparr>values' := m\<rparr>) address = isExcludedIP lib p address"
  by (auto simp: isExcludedIP_def getExcludedNetworks_def getExcludedAddresses_def
      split: option.splits)

lemma firstNotExcluded_values [simp]:
  "firstNotExcluded lib (p\<lparr>values' := m\<rparr>) candidates = firstNotExcluded lib p candidates"
  by (simp add: firstNotExcluded_def)

lemma Generic_GetRealIP_XRealIp:
  assumes "Header_Get lib (Header request) ''X-Real-Ip'' \<noteq> ''''"
    and "\<not> isExcludedIP lib gp (TrimSpace lib (Header_Get lib (Header request) ''X-Real-Ip''))"
    and "''X-Real-Ip'' \<in> set (headers gp)"
  shows "snd (Generic_GetRealIP lib gp request)
           = TrimSpace lib (Header_Get lib (Header request) ''X-Real-Ip'')"
  using assms
  by (simp add: Generic_GetRealIP_def fillValues_eq GetValues_def Let_def
      genericProviderXRealIPHeader_def)

text \<open>
  Claim C10 says that the generic provider lists its headers in the order in which the
  resolution consults them, \<^verbatim>\<open>X-Real-Ip\<close> first. The list of the source is the other way
  round.
\<close>

theorem GetHeaders_generic_counterexample:
  "GetHeaders (InitializeGenericProvider ([] :: (int list \<times> nat) list) ([] :: int list list))
     \<noteq> [''X-Real-Ip'', ''X-Forwarded-For'']"
  by (simp add: GetHeaders_def InitializeGenericProvider_def
      genericProviderXForwardedForHeader_def genericProviderXRealIPHeader_def)

text \<open>
  Claim C10, amended. The generic provider lists \<^verbatim>\<open>X-Forwarded-For\<close> first and \<^verbatim>\<open>X-Real-Ip\<close>
  second. The resolution consults them in the other order: whenever the request has an
  \<^verbatim>\<open>X-Real-Ip\<close> value that is not excluded, that value (trimmed) is the result, whatever
  \<^verbatim>\<open>X-Forwarded-For\<close> holds and whatever the provider has recorded before.
\<close>

theorem GetHeaders_generic_order:
  "GetHeaders (InitializeGenericProvider nets addrs) = [''X-Forwarded-For'', ''X-Real-Ip''] \<and>
   (GetHeaders gp = GetHeaders (InitializeGenericProvider nets addrs) \<and>
    Header_Get lib (Header request) ''X-Real-Ip'' \<noteq> '''' \<and>
    \<not> isExcludedIP lib gp (TrimSpace lib (Header_Get lib (Header request) ''X-Real-Ip''))
    \<longrightarrow> snd (Generic_GetRealIP lib gp request)
          = TrimSpace lib (Header_Get lib (Header request) ''X-Real-Ip''))"
proof -
  have order: "GetHeaders (InitializeGenericProvider nets addrs)
                 = [''X-Forwarded-For'', ''X-Real-Ip'']"
    by (simp add: GetHeaders_def InitializeGenericProvider_def
        genericProviderXForwardedForHeader_def genericProviderXRealIPHeader_def)
  show ?thesis
    using order Generic_GetRealIP_XRealIp [of lib request gp]
    by (simp add: GetHeaders_def)
qed

theorem GetHeaders_generic_order_witness:
  "GetHeaders (InitializeGenericProvider ([] :: (int list \<times> nat) list) ([] :: int list list))
     = [''X-Forwarded-For'', ''X-Real-Ip''] \<and>
   Header_Get ipv4_lib
     (Header (requestWithHeaders ipv4_lib
        [(''X-Forwarded-For'', ''10.0.0.99''), (''X-Real-Ip'', ''10.0.0.20'')]))
     ''X-Real-Ip'' = ''10.0.0.20'' \<and>
   \<not> isExcludedIP ipv4_lib (InitializeGenericProvider [] []) ''10.0.0.20'' \<and>
   snd (Generic_GetRealIP ipv4_lib (InitializeGenericProvider [] [])
          (requestWithHeaders ipv4_lib
             [(''X-Forwarded-For'', ''10.0.0.99''), (''X-Real-Ip'', ''10.0.0.20'')]))
     = ''10.0.0.20''"
proof -
  let ?gp = "InitializeGenericProvider ([] :: (int list \<times> nat) list) ([] :: int list list)"
  let ?r = "requestWithHeaders ipv4_lib
              [(''X-Forwarded-For'', ''10.0.0.99''), (''X-Real-Ip'', ''10.0.0.20'')]"
  have get: "Header_Get ipv4_lib (Header ?r) ''X-Real-Ip'' = ''10.0.0.20''"
    by (simp add: requestWithHeaders_def Header_Get_def Header_Set_def lib_eval)
  have ok: "\<not> isExcludedIP ipv4_lib ?gp ''10.0.0.20''"
    by (simp add: provider_eval lib_eval)
  from GetHeaders_generic_order
         [of "[] :: (int list \<times> nat) list" "[] :: int list list" ?gp ipv4_lib ?r] get ok
  show ?thesis by (simp add: lib_eval)
qed

section \<open>Evaluation of the handlers on the example requests\<close>

lemmas handler_eval = IsValidProvider_def ConfigHasProvider_def elems_def
  GetExcludedNetworks_def GetExcludedAddresses_def GetPreferredProvider_def
  HasPreferredProvider_def ServeHTTP_realIP_def cloudflareGetRealIP_def qratorGetRealIP_def
  genericGetRealIP_def

lemmas iface_eval = Initialize_def Providers_IsValidProvider_def Providers_GetProvider_def
  Providers_GetProviders_def GetProviders_def recordRealIP_def ServeHTTP_iface_realIP_def
  GetPreferredProvider_def HasPreferredProvider_def
  GetExcludedNetworks_def GetExcludedAddresses_def elems_def GetName_def

lemmas getrealip_eval = Range_GetRealIP_def Generic_GetRealIP_def Generic_forwardChain_def
  fillValues_eq Let_def GetValues_def range_values_def List.map_filter_def firstNotExcluded_def
  isExcludedIP_def getExcludedNetworks_def getExcludedAddresses_def
  InitializeGenericProvider_def InitializeCloudflareProvider_def InitializeQratorProvider_def
  genericProviderXForwardedForHeader_def genericProviderXRealIPHeader_def
  cloudflareProviderTrueClientIPHeader_def cloudflareProviderCFConnectingIPHeader_def
  qratorProviderXQratorIPSourceHeader_def

lemmas request_eval = requestWithHeaders_def headersAllProviders_def headersNoQrator_def
  Header_Set_def Header_Get_def

lemma get_eval:
  "Header_Get ipv4_lib (Header (requestWithHeaders ipv4_lib headersAllProviders))
     ''X-Forwarded-For'' = ''10.0.0.20''"
  "Header_Get ipv4_lib (Header (requestWithHeaders ipv4_lib headersAllProviders))
     ''X-Real-Ip'' = ''10.0.0.20''"
  "Header_Get ipv4_lib (Header (requestWithHeaders ipv4_lib headersAllProviders))
     ''X-Qrator-IP-Source'' = ''10.0.0.30''"
  "Header_Get ipv4_lib (Header (requestWithHeaders ipv4_lib headersAllProviders))
     ''True-Client-IP'' = ''10.0.0.40''"
  "Header_Get ipv4_lib (Header (requestWithHeaders ipv4_lib headersAllProviders))
     ''CF-Connecting-IP'' = ''10.0.0.40''"
  "Header_Get ipv4_lib (Header (requestWithHeaders ipv4_lib headersNoQrator))
     ''X-Forwarded-For'' = ''10.0.0.20''"
  "Header_Get ipv4_lib (Header (requestWithHeaders ipv4_lib headersNoQrator))
     ''X-Real-Ip'' = ''10.0.0.20''"
  "Header_Get ipv4_lib (Header (requestWithHeaders ipv4_lib headersNoQrator))
     ''X-Qrator-IP-Source'' = ''''"
  "Header_Get ipv4_lib (Header (requestWithHeaders ipv4_lib headersNoQrator))
     ''True-Client-IP'' = ''10.0.0.40''"
  "Header_Get ipv4_lib (Header (requestWithHeaders ipv4_lib headersNoQrator))
     ''CF-Connecting-IP'' = ''10.0.0.40''"
  by (simp_all add: request_eval lib_eval)

lemma New_eval:
  "New ipv4_lib (configPreferring ''qrator'') = Inr (freshHandler ''qrator'')"
  "New ipv4_lib (configPreferring ''cloudflare'') = Inr (freshHandler ''cloudflare'')"
  "New ipv4_lib (configPreferring '''') = Inr (freshHandler '''')"
  by (simp_all add: New_def handler_eval configPreferring_def freshHandler_def)

lemma New_iface_eval:
  "New_iface ipv4_lib (configPreferring ''qrator'') = Inr (freshHandler_iface ''qrator'')"
  "New_iface ipv4_lib (configPreferring '''') = Inr (freshHandler_iface '''')"
  by (simp_all add: New_iface_def iface_eval configPreferring_def freshHandler_iface_def)

lemma generic_alone_eval:
  "snd (Generic_GetRealIP ipv4_lib (InitializeGenericProvider [] [])
          (requestWithHeaders ipv4_lib headersAllProviders)) = ''10.0.0.20''"
  "snd (Generic_GetRealIP ipv4_lib (InitializeGenericProvider [] [])
          (requestWithHeaders ipv4_lib headersNoQrator)) = ''10.0.0.20''"
  by (simp_all add: getrealip_eval get_eval lib_eval)

lemma qrator_alone_eval:
  "snd (Range_GetRealIP ipv4_lib (rangeQratorValues sourceOrder) (InitializeQratorProvider [] [])
          (requestWithHeaders ipv4_lib headersAllProviders)) = ''10.0.0.30''"
  by (simp add: getrealip_eval get_eval lib_eval sourceOrder_def)

lemma sequence_eval:
  "map_sum id snd (ServeHTTP_sequence ipv4_lib (freshHandler ''qrator'')
     [(sourceOrder, requestWithHeaders ipv4_lib headersAllProviders)]) = Inr [''10.0.0.30'']"
  "map_sum id snd (ServeHTTP_sequence ipv4_lib (freshHandler ''qrator'')
     [(sourceOrder, requestWithHeaders ipv4_lib headersNoQrator)]) = Inr [''10.0.0.20'']"
  "map_sum id snd (ServeHTTP_sequence ipv4_lib (freshHandler ''qrator'')
     [(sourceOrder, requestWithHeaders ipv4_lib headersAllProviders),
      (sourceOrder, requestWithHeaders ipv4_lib headersNoQrator)])
     = Inr [''10.0.0.30'', ''10.0.0.30'']"
  by (simp_all add: freshHandler_def handler_eval getrealip_eval get_eval sourceOrder_def
      lib_eval)

lemma iface_sequence_eval:
  "snd (ServeHTTP_iface_sequence ipv4_lib (freshHandler_iface ''qrator'')
     [(sourceOrder, requestWithHeaders ipv4_lib headersAllProviders)]) = [''10.0.0.30'']"
  "snd (ServeHTTP_iface_sequence ipv4_lib (freshHandler_iface ''qrator'')
     [(sourceOrder, requestWithHeaders ipv4_lib headersNoQrator)]) = [''10.0.0.20'']"
  "snd (ServeHTTP_iface_sequence ipv4_lib (freshHandler_iface ''qrator'')
     [(sourceOrder, requestWithHeaders ipv4_lib headersAllProviders),
      (sourceOrder, requestWithHeaders ipv4_lib headersNoQrator)])
     = [''10.0.0.30'', ''10.0.0.30'']"
  by (simp_all add: freshHandler_iface_def iface_eval getrealip_eval get_eval sourceOrder_def
      lib_eval)

lemma iface_recorded_eval:
  "providersIPs (fst (ServeHTTP_iface_sequence ipv4_lib (freshHandler_iface ''qrator'')
     [(sourceOrder, requestWithHeaders ipv4_lib headersAllProviders)])) ''qrator''
     = Some ''10.0.0.30''"
  "(case providers (fst (ServeHTTP_iface_sequence ipv4_lib (freshHandler_iface ''qrator'')
       [(sourceOrder, requestWithHeaders ipv4_lib headersAllProviders),
        (sourceOrder, requestWithHeaders ipv4_lib headersNoQrator)])) ''qrator'' of
      None \<Rightarrow> None
    | Some provider \<Rightarrow> Interface_GetValues provider ''X-Qrator-IP-Source'')
     = Some ''10.0.0.30''"
  by (simp_all add: freshHandler_iface_def iface_eval getrealip_eval get_eval sourceOrder_def
      lib_eval)

section \<open>The preferred provider and the fallback to the generic provider\<close>

text \<open>
  Claim C1 says that the address resolved for a request is the preferred provider's
  candidate when there is one and the generic provider's value otherwise. The second half
  fails for a handler that has served an earlier request. The handler prefers Qrator. Its
  first request is the one of the test case with all five headers; the second is the one
  of the test case without a Qrator header, for which the generic provider's value is
  10.0.0.20. Served first, that request resolves to 10.0.0.20; served second, it resolves
  to 10.0.0.30, the Qrator address of the first request, in both revisions.
\<close>

theorem fallback_after_earlier_request:
  "New ipv4_lib (configPreferring ''qrator'') = Inr (freshHandler ''qrator'') \<and>
   New_iface ipv4_lib (configPreferring ''qrator'') = Inr (freshHandler_iface ''qrator'') \<and>
   Header_Get ipv4_lib (Header (requestWithHeaders ipv4_lib headersNoQrator))
     ''X-Qrator-IP-Source'' = '''' \<and>
   snd (Generic_GetRealIP ipv4_lib (InitializeGenericProvider [] [])
          (requestWithHeaders ipv4_lib headersNoQrator)) = ''10.0.0.20'' \<and>
   map_sum id snd (ServeHTTP_sequence ipv4_lib (freshHandler ''qrator'')
     [(sourceOrder, requestWithHeaders ipv4_lib headersNoQrator)]) = Inr [''10.0.0.20''] \<and>
   map_sum id snd (ServeHTTP_sequence ipv4_lib (freshHandler ''qrator'')
     [(sourceOrder, requestWithHeaders ipv4_lib headersAllProviders),
      (sourceOrder, requestWithHeaders ipv4_lib headersNoQrator)])
     = Inr [''10.0.0.30'', ''10.0.0.30''] \<and>
   snd (ServeHTTP_iface_sequence ipv4_lib (freshHandler_iface ''qrator'')
     [(sourceOrder, requestWithHeaders ipv4_lib headersNoQrator)]) = [''10.0.0.20''] \<and>
   snd (ServeHTTP_iface_sequence ipv4_lib (freshHandler_iface ''qrator'')
     [(sourceOrder, requestWithHeaders ipv4_lib headersAllProviders),
      (sourceOrder, requestWithHeaders ipv4_lib headersNoQrator)])
     = [''10.0.0.30'', ''10.0.0.30'']"
  by (simp only: New_eval New_iface_eval get_eval generic_alone_eval sequence_eval
      iface_sequence_eval simp_thms)

text \<open>The results of the two handlers alone.\<close>

theorem fallback_after_earlier_request_witness:
  "map_sum id snd (ServeHTTP_sequence ipv4_lib (freshHandler ''qrator'')
     [(sourceOrder, requestWithHeaders ipv4_lib headersNoQrator)]) = Inr [''10.0.0.20''] \<and>
   map_sum id snd (ServeHTTP_sequence ipv4_lib (freshHandler ''qrator'')
     [(sourceOrder, requestWithHeaders ipv4_lib headersAllProviders),
      (sourceOrder, requestWithHeaders ipv4_lib headersNoQrator)])
     = Inr [''10.0.0.30'', ''10.0.0.30''] \<and>
   snd (ServeHTTP_iface_sequence ipv4_lib (freshHandler_iface ''qrator'')
     [(sourceOrder, requestWithHeaders ipv4_lib headersNoQrator)]) = [''10.0.0.20''] \<and>
   snd (ServeHTTP_iface_sequence ipv4_lib (freshHandler_iface ''qrator'')
     [(sourceOrder, requestWithHeaders ipv4_lib headersAllProviders),
      (sourceOrder, requestWithHeaders ipv4_lib headersNoQrator)])
     = [''10.0.0.30'', ''10.0.0.30'']"
  using fallback_after_earlier_request by (simp only: simp_thms)

text \<open>
  Claim C5. In the revision with the provider interface the recorded addresses and the
  providers' maps of values belong to the handler and are never emptied: there are two
  requests, served one after the other by one handler, such that the second request has no
  Qrator header and still resolves to the Qrator address recorded for the first. The same
  request resolves to another address when the handler serves it first, so the resolved
  address is not a function of the request alone.
\<close>

theorem recorded_address_outlives_request:
  "New_iface ipv4_lib (configPreferring ''qrator'') = Inr (freshHandler_iface ''qrator'') \<and>
   providersIPs (fst (ServeHTTP_iface_sequence ipv4_lib (freshHandler_iface ''qrator'')
     [(sourceOrder, requestWithHeaders ipv4_lib headersAllProviders)])) ''qrator''
     = Some ''10.0.0.30'' \<and>
   Header_Get ipv4_lib (Header (requestWithHeaders ipv4_lib headersNoQrator))
     ''X-Qrator-IP-Source'' = '''' \<and>
   snd (ServeHTTP_iface_sequence ipv4_lib (freshHandler_iface ''qrator'')
     [(sourceOrder, requestWithHeaders ipv4_lib headersAllProviders),
      (sourceOrder, requestWithHeaders ipv4_lib headersNoQrator)])
     = [''10.0.0.30'', ''10.0.0.30''] \<and>
   (case providers (fst (ServeHTTP_iface_sequence ipv4_lib (freshHandler_iface ''qrator'')
       [(sourceOrder, requestWithHeaders ipv4_lib headersAllProviders),
        (sourceOrder, requestWithHeaders ipv4_lib headersNoQrator)])) ''qrator'' of
      None \<Rightarrow> None
    | Some provider \<Rightarrow> Interface_GetValues provider ''X-Qrator-IP-Source'')
     = Some ''10.0.0.30'' \<and>
   snd (ServeHTTP_iface_sequence ipv4_lib (freshHandler_iface ''qrator'')
     [(sourceOrder, requestWithHeaders ipv4_lib headersNoQrator)]) = [''10.0.0.20'']"
  by (simp only: New_iface_eval get_eval iface_sequence_eval iface_recorded_eval simp_thms)

section \<open>The generic provider after an earlier request\<close>

lemma get_single_eval:
  "Header_Get ipv4_lib (Header (requestWithHeaders ipv4_lib [(''X-Real-Ip'', ''10.0.0.20'')]))
     ''X-Real-Ip'' = ''10.0.0.20''"
  "Header_Get ipv4_lib (Header (requestWithHeaders ipv4_lib [(''X-Real-Ip'', ''10.0.0.20'')]))
     ''X-Forwarded-For'' = ''''"
  "Header_Get ipv4_lib
     (Header (requestWithHeaders ipv4_lib [(''X-Forwarded-For'', ''10.0.0.99'')]))
     ''X-Real-Ip'' = ''''"
  "Header_Get ipv4_lib
     (Header (requestWithHeaders ipv4_lib [(''X-Forwarded-For'', ''10.0.0.99'')]))
     ''X-Forwarded-For'' = ''10.0.0.99''"
  by (simp_all add: request_eval lib_eval)

text \<open>
  Claim C4 says that the generic provider returns the request's \<^verbatim>\<open>X-Real-Ip\<close> value when it
  is not excluded and otherwise the first token of the request's \<^verbatim>\<open>X-Forwarded-For\<close> that is
  not excluded. A provider that reads a request with \<^verbatim>\<open>X-Forwarded-For: 10.0.0.99\<close> and no
  \<^verbatim>\<open>X-Real-Ip\<close> returns 10.0.0.99 when the request is its first. After a request with
  \<^verbatim>\<open>X-Real-Ip: 10.0.0.20\<close> it returns 10.0.0.20 for the same request: the value of the
  earlier request is still in its map.
\<close>

theorem generic_after_earlier_request:
  "Header_Get ipv4_lib
     (Header (requestWithHeaders ipv4_lib [(''X-Forwarded-For'', ''10.0.0.99'')]))
     ''X-Real-Ip'' = '''' \<and>
   Header_Get ipv4_lib
     (Header (requestWithHeaders ipv4_lib [(''X-Forwarded-For'', ''10.0.0.99'')]))
     ''X-Forwarded-For'' = ''10.0.0.99'' \<and>
   snd (Generic_GetRealIP ipv4_lib (InitializeGenericProvider [] [])
          (requestWithHeaders ipv4_lib [(''X-Forwarded-For'', ''10.0.0.99'')])) = ''10.0.0.99'' \<and>
   snd (Generic_GetRealIP ipv4_lib
          (fst (Generic_GetRealIP ipv4_lib (InitializeGenericProvider [] [])
                  (requestWithHeaders ipv4_lib [(''X-Real-Ip'', ''10.0.0.20'')])))
          (requestWithHeaders ipv4_lib [(''X-Forwarded-For'', ''10.0.0.99'')])) = ''10.0.0.20''"
  by (simp add: getrealip_eval get_single_eval lib_eval)

section \<open>The map of values after an earlier request\<close>

text \<open>
  Claim C8 says that a provider's map of values is built from the current request only.
  \<^verbatim>\<open>fillValues\<close> writes the headers that the request has into the provider's map and leaves
  every other entry of the map as it is: after a request with a Qrator header, the map of
  the Qrator provider still holds that header's value when the next request, which has no
  Qrator header, has been read. Read by a new provider, the second request leaves no entry.
\<close>

theorem fillValues_keeps_earlier_entry:
  "Header_Get ipv4_lib (Header (requestWithHeaders ipv4_lib headersNoQrator))
     ''X-Qrator-IP-Source'' = '''' \<and>
   GetValues (fillValues ipv4_lib (InitializeQratorProvider [] [])
                (requestWithHeaders ipv4_lib headersNoQrator)) ''X-Qrator-IP-Source'' = None \<and>
   GetValues (fillValues ipv4_lib
                (fillValues ipv4_lib (InitializeQratorProvider [] [])
                   (requestWithHeaders ipv4_lib headersAllProviders))
                (requestWithHeaders ipv4_lib headersNoQrator)) ''X-Qrator-IP-Source''
     = Some ''10.0.0.30''"
  by (simp add: getrealip_eval get_eval lib_eval)

section \<open>Construction\<close>

lemma parseExcludedNetworks_isl:
  "isl (parseExcludedNetworks lib vs acc) = (\<exists>v \<in> set vs. ParseCIDR lib v = None)"
  by (induction vs arbitrary: acc) (auto split: option.splits)

lemma parseExcludedAddresses_eq:
  "parseExcludedAddresses lib vs acc = acc @ List.map_filter (ParseIP lib) vs"
  by (induction vs arbitrary: acc) (auto split: option.splits)

lemma enableProviders_isl:
  "isl (enableProviders lib manager vs enabled)
     = (\<exists>v \<in> set vs. \<not> Providers_IsValidProvider manager (TrimSpace lib (ToLower lib v)))"
  by (induction vs arbitrary: enabled) (auto simp: Let_def)

lemma Initialize_valid:
  "Providers_IsValidProvider (Initialize nets addrs) provider
     = (provider \<in> {''generic'', ''cloudflare'', ''qrator''})"
  by (auto simp: Providers_IsValidProvider_def Initialize_def)

lemma find_None_iff_all: "(find P xs = None) = (\<forall>x \<in> set xs. \<not> P x)"
  by (induction xs) auto

lemma IsValidProvider_names:
  "availableProviders trip = [''generic'', ''cloudflare'', ''qrator''] \<Longrightarrow>
   IsValidProvider trip provider = (provider \<in> {''generic'', ''cloudflare'', ''qrator''})"
  by (auto simp: IsValidProvider_def)

lemma providers_condition: "ps \<noteq> None \<or> length (elems ps) = 0"
  by (cases ps) (simp_all add: elems_def)

lemma New_unfold:
  "New lib config =
     (case parseExcludedNetworks lib (ExcludedNetworks config) [] of
        Inl err \<Rightarrow> Inl err
      | Inr nets \<Rightarrow>
          if PreferredProvider config \<noteq> '''' \<and>
             PreferredProvider config \<notin> {''generic'', ''cloudflare'', ''qrator''}
          then Inl (Errorf (''preferred provider '' @ PreferredProvider config
                 @ '' is not valid, only the following ones are supported: ''
                 @ ''generic, cloudflare, qrator''))
          else
            (case find (\<lambda>provider. provider \<notin> {''generic'', ''cloudflare'', ''qrator''})
                    (elems (Providers config)) of
               Some provider \<Rightarrow>
                 Inl (Errorf (''provider '' @ provider
                   @ '' is not valid, only the following ones are supported: ''
                   @ ''generic, cloudflare, qrator''))
             | None \<Rightarrow>
                 (let addrs = List.map_filter (ParseIP lib) (ExcludedAddresses config) in
                  Inr \<lparr> trip_excludedNetworks = nets, trip_excludedAddresses = addrs,
                        preferredProvider = PreferredProvider config, providersIPs = Map.empty,
                        availableProviders = [''generic'', ''cloudflare'', ''qrator''],
                        genericProvider = Some (InitializeGenericProvider nets addrs),
                        cloudflareProvider = Some (InitializeCloudflareProvider nets addrs),
                        qratorProvider = Some (InitializeQratorProvider nets addrs) \<rparr>)))"
proof (cases "parseExcludedNetworks lib (ExcludedNetworks config) []")
  case (Inl err)
  then show ?thesis by (simp add: New_def)
next
  case (Inr nets)
  note nets = this
  show ?thesis
  proof (cases "PreferredProvider config \<noteq> '''' \<and>
             PreferredProvider config \<notin> {''generic'', ''cloudflare'', ''qrator''}")
    case True
    with nets show ?thesis
      by (simp add: New_def Let_def IsValidProvider_names)
  next
    case False
    note pref = this
    show ?thesis
    proof (cases "find (\<lambda>provider. provider \<notin> {''generic'', ''cloudflare'', ''qrator''})
                    (elems (Providers config))")
      case (Some provider)
      with nets pref show ?thesis
        by (simp add: New_def Let_def IsValidProvider_names)
    next
      case None
      with nets pref providers_condition [of "Providers config"] show ?thesis
        by (simp add: New_def Let_def IsValidProvider_names parseExcludedAddresses_eq
            GetExcludedNetworks_def GetExcludedAddresses_def)
    qed
  qed
qed

lemma New_iface_unfold:
  "New_iface lib config =
     (case parseExcludedNetworks lib (ExcludedNetworks config) [] of
        Inl err \<Rightarrow> Inl err
      | Inr nets \<Rightarrow>
          (let addrs = List.map_filter (ParseIP lib) (ExcludedAddresses config);
               manager = Initialize nets addrs
           in if PreferredProvider config \<noteq> '''' \<and>
                 PreferredProvider config \<notin> {''generic'', ''cloudflare'', ''qrator''}
              then Inl ErrorInvalidPreferredProvider
              else if elems (Providers config) = []
              then Inr \<lparr> trip_excludedNetworks = nets, trip_excludedAddresses = addrs,
                         preferredProvider = PreferredProvider config,
                         providersIPs = Map.empty, providers = manager \<rparr>
              else
               (case enableProviders lib manager (elems (Providers config)) Map.empty of
                  Inl err \<Rightarrow> Inl err
                | Inr enabled \<Rightarrow>
                    Inr \<lparr> trip_excludedNetworks = nets, trip_excludedAddresses = addrs,
                          preferredProvider = PreferredProvider config,
                          providersIPs = Map.empty,
                          providers =
                            (if enabled ''generic'' = None
                             then enabled(''generic'' := manager ''generic'')
                             else enabled) \<rparr>)))"
proof (cases "parseExcludedNetworks lib (ExcludedNetworks config) []")
  case (Inl err)
  then show ?thesis by (simp add: New_iface_def)
next
  case (Inr nets)
  then show ?thesis
    by (simp add: New_iface_def Let_def Initialize_valid parseExcludedAddresses_eq
        GetExcludedNetworks_def GetExcludedAddresses_def Providers_GetProviders_def
        Providers_GetProvider_def cong: sum.case_cong if_cong)
qed

lemma New_isl:
  "isl (New lib config) =
     ((\<exists>v \<in> set (ExcludedNetworks config). ParseCIDR lib v = None) \<or>
      (PreferredProvider config \<noteq> '''' \<and>
       PreferredProvider config \<notin> {''generic'', ''cloudflare'', ''qrator''}) \<or>
      (\<exists>p \<in> set (elems (Providers config)). p \<notin> {''generic'', ''cloudflare'', ''qrator''}))"
proof (cases "parseExcludedNetworks lib (ExcludedNetworks config) []")
  case (Inl err)
  then have "isl (parseExcludedNetworks lib (ExcludedNetworks config) [])" by simp
  then have "\<exists>v \<in> set (ExcludedNetworks config). ParseCIDR lib v = None"
    by (simp add: parseExcludedNetworks_isl)
  with Inl show ?thesis by (simp add: New_unfold)
next
  case (Inr nets)
  then have "\<not> isl (parseExcludedNetworks lib (ExcludedNetworks config) [])" by simp
  then have ok: "\<not> (\<exists>v \<in> set (ExcludedNetworks config). ParseCIDR lib v = None)"
    by (simp add: parseExcludedNetworks_isl)
  show ?thesis
  proof (cases "find (\<lambda>provider. provider \<notin> {''generic'', ''cloudflare'', ''qrator''})
                    (elems (Providers config))")
    case None
    then have "\<not> (\<exists>p \<in> set (elems (Providers config)).
                    p \<notin> {''generic'', ''cloudflare'', ''qrator''})"
      by (simp add: find_None_iff_all)
    with Inr ok None show ?thesis by (simp add: New_unfold Let_def)
  next
    case (Some bad)
    then have "find (\<lambda>provider. provider \<notin> {''generic'', ''cloudflare'', ''qrator''})
                    (elems (Providers config)) \<noteq> None" by simp
    then have "\<exists>p \<in> set (elems (Providers config)).
                    p \<notin> {''generic'', ''cloudflare'', ''qrator''}"
      by (simp add: find_None_iff_all)
    with Inr ok Some show ?thesis by (simp add: New_unfold Let_def)
  qed
qed

lemma New_iface_isl:
  "isl (New_iface lib config) =
     ((\<exists>v \<in> set (ExcludedNetworks config). ParseCIDR lib v = None) \<or>
      (PreferredProvider config \<noteq> '''' \<and>
       PreferredProvider config \<notin> {''generic'', ''cloudflare'', ''qrator''}) \<or>
      (\<exists>p \<in> set (elems (Providers config)).
          TrimSpace lib (ToLower lib p) \<notin> {''generic'', ''cloudflare'', ''qrator''}))"
proof (cases "parseExcludedNetworks lib (ExcludedNetworks config) []")
  case (Inl err)
  then have "isl (parseExcludedNetworks lib (ExcludedNetworks config) [])" by simp
  then have "\<exists>v \<in> set (ExcludedNetworks config). ParseCIDR lib v = None"
    by (simp add: parseExcludedNetworks_isl)
  with Inl show ?thesis by (simp add: New_iface_unfold)
next
  case (Inr nets)
  note nets = this
  then have "\<not> isl (parseExcludedNetworks lib (ExcludedNetworks config) [])" by simp
  then have ok: "\<not> (\<exists>v \<in> set (ExcludedNetworks config). ParseCIDR lib v = None)"
    by (simp add: parseExcludedNetworks_isl)
  let ?m = "Initialize nets (List.map_filter (ParseIP lib) (ExcludedAddresses config))"
  show ?thesis
  proof (cases "enableProviders lib ?m (elems (Providers config)) Map.empty")
    case (Inl err)
    then have "isl (enableProviders lib ?m (elems (Providers config)) Map.empty)" by simp
    then have bad: "\<exists>p \<in> set (elems (Providers config)).
          TrimSpace lib (ToLower lib p) \<notin> {''generic'', ''cloudflare'', ''qrator''}"
      by (simp add: enableProviders_isl Initialize_valid)
    then have "elems (Providers config) \<noteq> []" by auto
    with nets ok Inl bad show ?thesis
      by (simp add: New_iface_unfold Let_def)
  next
    case (Inr enabled)
    then have "\<not> isl (enableProviders lib ?m (elems (Providers config)) Map.empty)" by simp
    then have good: "\<not> (\<exists>p \<in> set (elems (Providers config)).
          TrimSpace lib (ToLower lib p) \<notin> {''generic'', ''cloudflare'', ''qrator''})"
      by (simp add: enableProviders_isl Initialize_valid)
    with nets ok Inr show ?thesis
      by (simp add: New_iface_unfold Let_def)
  qed
qed

lemma New_addresses:
  "New lib config = Inr trip \<Longrightarrow>
   trip_excludedAddresses trip = List.map_filter (ParseIP lib) (ExcludedAddresses config)"
  by (auto simp: New_unfold Let_def split: sum.splits option.splits if_splits)

lemma New_iface_addresses:
  "New_iface lib config = Inr trip \<Longrightarrow>
   trip_excludedAddresses trip = List.map_filter (ParseIP lib) (ExcludedAddresses config)"
  by (auto simp: New_iface_unfold Let_def split: sum.splits option.splits if_splits)

lemma norm_eval:
  "TrimSpace_ascii (ToLower_ascii ''invalid'') = ''invalid''"
  "TrimSpace_ascii (ToLower_ascii ''Qrator'') = ''qrator''"
  by code_simp+

text \<open>
  Claim C7 says that construction fails for every configuration with an unrecognized name
  in \<^verbatim>\<open>providers\<close>. The revision with the provider interface lower-cases and trims each
  configured name before it looks the name up: it accepts \<^verbatim>\<open>Qrator\<close>, which is none of the
  three provider names and which the other revision refuses. (\<open>isl\<close> holds of an error.)
\<close>

theorem New_iface_accepts_counterexample:
  "''Qrator'' \<notin> {''generic'', ''cloudflare'', ''qrator''} \<and>
   isl (New ipv4_lib \<lparr>ExcludedNetworks = [], ExcludedAddresses = [],
          Providers = Some [''Qrator''], PreferredProvider = ''''\<rparr>) \<and>
   \<not> isl (New_iface ipv4_lib \<lparr>ExcludedNetworks = [], ExcludedAddresses = [],
          Providers = Some [''Qrator''], PreferredProvider = ''''\<rparr>)"
  by (simp add: New_isl New_iface_isl elems_def lib_eval norm_eval)

text \<open>
  Claim C7, amended. Construction fails exactly when an entry of \<^verbatim>\<open>excludedNetworks\<close> does
  not parse as a CIDR, or \<^verbatim>\<open>preferredProvider\<close> is not empty and is none of \<^verbatim>\<open>generic\<close>,
  \<^verbatim>\<open>cloudflare\<close>, \<^verbatim>\<open>qrator\<close>, or an entry of \<^verbatim>\<open>providers\<close> is none of the three names; the
  revision with the provider interface compares the entry lower-cased and trimmed. No
  entry of \<^verbatim>\<open>excludedAddresses\<close> makes construction fail: the handler that is built holds
  the addresses that parse, in their order, and the other entries are dropped.
\<close>

theorem New_fails_exactly:
  "isl (New lib config) =
     ((\<exists>v \<in> set (ExcludedNetworks config). ParseCIDR lib v = None) \<or>
      (PreferredProvider config \<noteq> '''' \<and>
       PreferredProvider config \<notin> {''generic'', ''cloudflare'', ''qrator''}) \<or>
      (\<exists>p \<in> set (elems (Providers config)). p \<notin> {''generic'', ''cloudflare'', ''qrator''})) \<and>
   isl (New_iface lib config) =
     ((\<exists>v \<in> set (ExcludedNetworks config). ParseCIDR lib v = None) \<or>
      (PreferredProvider config \<noteq> '''' \<and>
       PreferredProvider config \<notin> {''generic'', ''cloudflare'', ''qrator''}) \<or>
      (\<exists>p \<in> set (elems (Providers config)).
          TrimSpace lib (ToLower lib p) \<notin> {''generic'', ''cloudflare'', ''qrator''})) \<and>
   (\<forall>trip. New lib config = Inr trip \<longrightarrow>
      trip_excludedAddresses trip = List.map_filter (ParseIP lib) (ExcludedAddresses config)) \<and>
   (\<forall>trip. New_iface lib config = Inr trip \<longrightarrow>
      trip_excludedAddresses trip = List.map_filter (ParseIP lib) (ExcludedAddresses config))"
  using New_isl [of lib config] New_iface_isl [of lib config]
    New_addresses [of lib config] New_iface_addresses [of lib config]
  by blast

theorem New_fails_exactly_witness:
  "isl (New ipv4_lib \<lparr>ExcludedNetworks = [''invalid''], ExcludedAddresses = [],
          Providers = None, PreferredProvider = ''''\<rparr>) \<and>
   isl (New_iface ipv4_lib \<lparr>ExcludedNetworks = [''invalid''], ExcludedAddresses = [],
          Providers = None, PreferredProvider = ''''\<rparr>) \<and>
   isl (New ipv4_lib \<lparr>ExcludedNetworks = [], ExcludedAddresses = [],
          Providers = Some [''invalid''], PreferredProvider = ''''\<rparr>) \<and>
   isl (New_iface ipv4_lib \<lparr>ExcludedNetworks = [], ExcludedAddresses = [],
          Providers = Some [''invalid''], PreferredProvider = ''''\<rparr>) \<and>
   isl (New ipv4_lib \<lparr>ExcludedNetworks = [], ExcludedAddresses = [],
          Providers = None, PreferredProvider = ''invalid''\<rparr>) \<and>
   isl (New_iface ipv4_lib \<lparr>ExcludedNetworks = [], ExcludedAddresses = [],
          Providers = None, PreferredProvider = ''invalid''\<rparr>) \<and>
   map_sum id trip_excludedAddresses
     (New ipv4_lib \<lparr>ExcludedNetworks = [], ExcludedAddresses = [''invalid'', ''10.0.0.1''],
          Providers = None, PreferredProvider = ''''\<rparr>) = Inr [[10, 0, 0, 1]] \<and>
   map_sum id trip_excludedAddresses
     (New_iface ipv4_lib \<lparr>ExcludedNetworks = [], ExcludedAddresses = [''invalid'', ''10.0.0.1''],
          Providers = None, PreferredProvider = ''''\<rparr>) = Inr [[10, 0, 0, 1]]"
proof -
  let ?net = "\<lparr>ExcludedNetworks = [''invalid''], ExcludedAddresses = [],
          Providers = None, PreferredProvider = ''''\<rparr>"
  let ?prov = "\<lparr>ExcludedNetworks = [], ExcludedAddresses = [],
          Providers = Some [''invalid''], PreferredProvider = ''''\<rparr>"
  let ?pref = "\<lparr>ExcludedNetworks = [], ExcludedAddresses = [],
          Providers = None, PreferredProvider = ''invalid''\<rparr>"
  let ?addr = "\<lparr>ExcludedNetworks = [], ExcludedAddresses = [''invalid'', ''10.0.0.1''],
          Providers = None, PreferredProvider = ''''\<rparr>"
  have n: "isl (New ipv4_lib ?net) \<and> isl (New_iface ipv4_lib ?net)"
    using New_fails_exactly [of ipv4_lib ?net] by (simp add: lib_eval)
  have p: "isl (New ipv4_lib ?prov) \<and> isl (New_iface ipv4_lib ?prov)"
    using New_fails_exactly [of ipv4_lib ?prov] by (simp add: lib_eval elems_def norm_eval)
  have f: "isl (New ipv4_lib ?pref) \<and> isl (New_iface ipv4_lib ?pref)"
    using New_fails_exactly [of ipv4_lib ?pref] by (simp add: lib_eval)
  have a: "\<not> isl (New ipv4_lib ?addr) \<and> \<not> isl (New_iface ipv4_lib ?addr)"
    using New_fails_exactly [of ipv4_lib ?addr] by (simp add: lib_eval elems_def)
  then obtain t1 t2 where t: "New ipv4_lib ?addr = Inr t1" "New_iface ipv4_lib ?addr = Inr t2"
    by (metis sum.collapse(2))
  with New_fails_exactly [of ipv4_lib ?addr]
  have "trip_excludedAddresses t1 = [[10, 0, 0, 1]]" "trip_excludedAddresses t2 = [[10, 0, 0, 1]]"
    by (simp_all add: lib_eval)
  with t n p f show ?thesis by simp
qed

section \<open>Writing the resolved address into the request\<close>

lemma New_initialised: "New lib config = Inr trip \<Longrightarrow> initialised trip"
  by (auto simp: New_unfold Let_def initialised_def split: sum.splits option.splits if_splits)

lemma ServeHTTP_realIP_returns:
  assumes "initialised trip"
  shows "\<exists>trip' realIP. ServeHTTP_realIP lib sch trip request = Inr (trip', realIP) \<and> initialised trip'"
  using assms
  by (auto simp: ServeHTTP_realIP_def initialised_def cloudflareGetRealIP_def qratorGetRealIP_def
      genericGetRealIP_def GetPreferredProvider_def HasPreferredProvider_def Let_def
      split: prod.splits)

lemma writeRealIP_Header:
  "realIP \<noteq> '''' \<Longrightarrow>
   Header (writeRealIP lib realIP request) =
     (Header request)(CanonicalMIMEHeaderKey lib ''X-Forwarded-For'' \<mapsto> [realIP],
                      CanonicalMIMEHeaderKey lib ''X-Real-Ip'' \<mapsto> [realIP])"
  by (simp add: writeRealIP_def Header_Set_def)

lemma writeRealIP_Get:
  "realIP \<noteq> '''' \<Longrightarrow> Header_Get lib (Header (writeRealIP lib realIP request)) ''X-Forwarded-For'' = realIP"
  "realIP \<noteq> '''' \<Longrightarrow> Header_Get lib (Header (writeRealIP lib realIP request)) ''X-Real-Ip'' = realIP"
  by (simp_all add: writeRealIP_def Header_Set_def Header_Get_def)

lemma writeRealIP_other:
  "CanonicalMIMEHeaderKey lib key \<noteq> CanonicalMIMEHeaderKey lib ''X-Forwarded-For'' \<Longrightarrow>
   CanonicalMIMEHeaderKey lib key \<noteq> CanonicalMIMEHeaderKey lib ''X-Real-Ip'' \<Longrightarrow>
   Header_Get lib (Header (writeRealIP lib realIP request)) key = Header_Get lib (Header request) key"
  by (simp add: writeRealIP_def Header_Set_def Header_Get_def)

lemma writeRealIP_empty: "writeRealIP lib '''' request = request"
  by (simp add: writeRealIP_def)

lemma writeRealIP_frame:
  "(if realIP \<noteq> ''''
    then Header (writeRealIP lib realIP request) =
           (Header request)(CanonicalMIMEHeaderKey lib ''X-Forwarded-For'' \<mapsto> [realIP],
                            CanonicalMIMEHeaderKey lib ''X-Real-Ip'' \<mapsto> [realIP]) \<and>
         Header_Get lib (Header (writeRealIP lib realIP request)) ''X-Forwarded-For'' = realIP \<and>
         Header_Get lib (Header (writeRealIP lib realIP request)) ''X-Real-Ip'' = realIP
    else writeRealIP lib realIP request = request)"
  by (simp add: writeRealIP_def Header_Set_def Header_Get_def)

text \<open>
  Claim C6. \<^verbatim>\<open>ServeHTTP\<close> returns once its providers are there, and it calls the next
  handler with a request \<open>request'\<close>. When the resolved address is not empty, the header
  of \<open>request'\<close> is the header of the request with exactly two entries replaced, the
  ones of \<^verbatim>\<open>X-Forwarded-For\<close> and \<^verbatim>\<open>X-Real-Ip\<close>, each holding the address as its only
  value; every other entry is as it was. When no address is resolved, \<open>request'\<close> is the
  request. This holds in both revisions; in the revision with one field per provider the
  three providers must not be \<^verbatim>\<open>nil\<close>, which \<^verbatim>\<open>New\<close> guarantees (\<open>New_initialised\<close>).
\<close>

theorem ServeHTTP_writes_two_headers:
  "(initialised trip \<longrightarrow>
      (\<exists>trip' realIP request'.
         ServeHTTP_realIP lib sch trip request = Inr (trip', realIP) \<and>
         ServeHTTP lib sch nxt trip w request = Inr (trip', nxt w request') \<and>
         (if realIP \<noteq> ''''
          then Header request' =
                 (Header request)(CanonicalMIMEHeaderKey lib ''X-Forwarded-For'' \<mapsto> [realIP],
                                  CanonicalMIMEHeaderKey lib ''X-Real-Ip'' \<mapsto> [realIP]) \<and>
               Header_Get lib (Header request') ''X-Forwarded-For'' = realIP \<and>
               Header_Get lib (Header request') ''X-Real-Ip'' = realIP
          else request' = request))) \<and>
   (\<exists>trip' realIP request'.
         ServeHTTP_iface_realIP lib sch itrip request = (trip', realIP) \<and>
         ServeHTTP_iface lib sch nxt itrip w request = (trip', nxt w request') \<and>
         (if realIP \<noteq> ''''
          then Header request' =
                 (Header request)(CanonicalMIMEHeaderKey lib ''X-Forwarded-For'' \<mapsto> [realIP],
                                  CanonicalMIMEHeaderKey lib ''X-Real-Ip'' \<mapsto> [realIP]) \<and>
               Header_Get lib (Header request') ''X-Forwarded-For'' = realIP \<and>
               Header_Get lib (Header request') ''X-Real-Ip'' = realIP
          else request' = request))"
proof (intro conjI impI)
  assume "initialised trip"
  then obtain trip' realIP where r: "ServeHTTP_realIP lib sch trip request = Inr (trip', realIP)"
    using ServeHTTP_realIP_returns by blast
  then have s: "ServeHTTP lib sch nxt trip w request
                  = Inr (trip', nxt w (writeRealIP lib realIP request))"
    by (simp add: ServeHTTP_def)
  from r s writeRealIP_frame [of realIP lib request]
  show "\<exists>trip' realIP request'.
         ServeHTTP_realIP lib sch trip request = Inr (trip', realIP) \<and>
         ServeHTTP lib sch nxt trip w request = Inr (trip', nxt w request') \<and>
         (if realIP \<noteq> ''''
          then Header request' =
                 (Header request)(CanonicalMIMEHeaderKey lib ''X-Forwarded-For'' \<mapsto> [realIP],
                                  CanonicalMIMEHeaderKey lib ''X-Real-Ip'' \<mapsto> [realIP]) \<and>
               Header_Get lib (Header request') ''X-Forwarded-For'' = realIP \<and>
               Header_Get lib (Header request') ''X-Real-Ip'' = realIP
          else request' = request)"
    by blast
next
  obtain trip' realIP where r: "ServeHTTP_iface_realIP lib sch itrip request = (trip', realIP)"
    by (cases "ServeHTTP_iface_realIP lib sch itrip request")
  then have s: "ServeHTTP_iface lib sch nxt itrip w request
                  = (trip', nxt w (writeRealIP lib realIP request))"
    by (simp add: ServeHTTP_iface_def)
  from r s writeRealIP_frame [of realIP lib request]
  show "\<exists>trip' realIP request'.
         ServeHTTP_iface_realIP lib sch itrip request = (trip', realIP) \<and>
         ServeHTTP_iface lib sch nxt itrip w request = (trip', nxt w request') \<and>
         (if realIP \<noteq> ''''
          then Header request' =
                 (Header request)(CanonicalMIMEHeaderKey lib ''X-Forwarded-For'' \<mapsto> [realIP],
                                  CanonicalMIMEHeaderKey lib ''X-Real-Ip'' \<mapsto> [realIP]) \<and>
               Header_Get lib (Header request') ''X-Forwarded-For'' = realIP \<and>
               Header_Get lib (Header request') ''X-Real-Ip'' = realIP
          else request' = request)"
    by blast
qed

section \<open>Calling a provider again\<close>

lemma Range_GetRealIP_eq:
  "Range_GetRealIP lib order p request =
     (fillValues lib p request,
      firstNotExcluded lib p (range_values (values' (fillValues lib p request)) order))"
  by (simp add: Range_GetRealIP_def Let_def GetValues_def fillValues_eq)

lemma fillValues_idem:
  assumes "\<forall>h \<in> set (headers p).
             Header_Get lib (Header request') h = Header_Get lib (Header request) h"
  shows "fillValues lib (fillValues lib p request) request' = fillValues lib p request"
proof -
  let ?f = "\<lambda>r h. if h \<in> set (headers p) \<and> Header_Get lib (Header r) h \<noteq> []
                  then Some (TrimSpace lib (Header_Get lib (Header r) h)) else None"
  have "(\<lambda>h. if h \<in> set (headers p) \<and> Header_Get lib (Header request') h \<noteq> []
             then Some (TrimSpace lib (Header_Get lib (Header request') h))
             else if h \<in> set (headers p) \<and> Header_Get lib (Header request) h \<noteq> []
                  then Some (TrimSpace lib (Header_Get lib (Header request) h))
                  else values' p h)
        = (\<lambda>h. if h \<in> set (headers p) \<and> Header_Get lib (Header request) h \<noteq> []
                then Some (TrimSpace lib (Header_Get lib (Header request) h))
                else values' p h)"
    using assms by (auto simp: fun_eq_iff)
  then show ?thesis by (simp add: fillValues_eq cong: if_cong)
qed

lemma fillValues_same:
  "fillValues lib (fillValues lib p request) request = fillValues lib p request"
  by (rule fillValues_idem) simp

lemma fillValues_fields [simp]:
  "name (fillValues lib p request) = name p"
  "headers (fillValues lib p request) = headers p"
  "excludedNetworks (fillValues lib p request) = excludedNetworks p"
  "excludedAddresses (fillValues lib p request) = excludedAddresses p"
  by (simp_all add: fillValues_eq)

lemma isExcludedIP_fillValues [simp]:
  "isExcludedIP lib (fillValues lib p request) address = isExcludedIP lib p address"
  by (simp add: fillValues_eq)

lemma firstNotExcluded_fillValues [simp]:
  "firstNotExcluded lib (fillValues lib p request) cs = firstNotExcluded lib p cs"
  by (simp add: fillValues_eq)

lemma Range_GetRealIP_idem:
  assumes "\<forall>h \<in> set (headers p).
             Header_Get lib (Header request') h = Header_Get lib (Header request) h"
  shows "Range_GetRealIP lib order (fst (Range_GetRealIP lib order p request)) request'
           = Range_GetRealIP lib order p request"
  using assms by (simp add: Range_GetRealIP_eq fillValues_idem)

lemma firstNotExcluded_cases:
  "firstNotExcluded lib p cs = '''' \<or>
   (\<not> isExcludedIP lib p (firstNotExcluded lib p cs) \<and> firstNotExcluded lib p cs \<in> set cs)"
  by (auto simp: firstNotExcluded_def find_Some_iff split: option.splits)

lemma Generic_GetRealIP_eq:
  "Generic_GetRealIP lib gp request =
     (fillValues lib gp request,
      case values' (fillValues lib gp request) ''X-Real-Ip'' of
        Some value \<Rightarrow>
          if \<not> isExcludedIP lib gp value then value
          else Generic_forwardChain lib (fillValues lib gp request)
      | None \<Rightarrow> Generic_forwardChain lib (fillValues lib gp request))"
  by (simp add: Generic_GetRealIP_def Let_def GetValues_def genericProviderXRealIPHeader_def
      cong: option.case_cong)

lemma Generic_forwardChain_cases:
  "Generic_forwardChain lib gp = '''' \<or> \<not> isExcludedIP lib gp (Generic_forwardChain lib gp)"
  using firstNotExcluded_cases [of lib gp]
  by (auto simp: Generic_forwardChain_def split: option.splits)

lemma Generic_GetRealIP_not_excluded:
  "snd (Generic_GetRealIP lib gp request) = '''' \<or>
   \<not> isExcludedIP lib gp (snd (Generic_GetRealIP lib gp request))"
  using Generic_forwardChain_cases [of lib "fillValues lib gp request"]
  by (auto simp: Generic_GetRealIP_eq split: option.splits)

lemma not_excluded_parses: "\<not> isExcludedIP lib p address \<Longrightarrow> ParseIP lib address \<noteq> None"
  by (auto simp: isExcludedIP_def split: option.splits)

lemma Generic_GetRealIP_idem:
  "Generic_GetRealIP lib (fst (Generic_GetRealIP lib gp request)) request
     = Generic_GetRealIP lib gp request"
  by (simp add: Generic_GetRealIP_eq fillValues_same cong: option.case_cong if_cong)

lemma Generic_GetRealIP_again:
  assumes parse: "\<forall>s. ParseIP lib s \<noteq> None \<longrightarrow> TrimSpace lib s = s"
    and hdr: "''X-Real-Ip'' \<in> set (headers gp)"
  shows "snd (Generic_GetRealIP lib (fst (Generic_GetRealIP lib gp request))
                (writeRealIP lib (snd (Generic_GetRealIP lib gp request)) request))
           = snd (Generic_GetRealIP lib gp request)"
proof (cases "snd (Generic_GetRealIP lib gp request) = ''''")
  case True
  then show ?thesis
    by (simp add: writeRealIP_empty Generic_GetRealIP_idem)
next
  case False
  let ?g = "snd (Generic_GetRealIP lib gp request)"
  let ?gp1 = "fst (Generic_GetRealIP lib gp request)"
  from False Generic_GetRealIP_not_excluded [of lib gp request]
  have ok: "\<not> isExcludedIP lib gp ?g" by blast
  then have trimmed: "TrimSpace lib ?g = ?g"
    using parse not_excluded_parses by blast
  have get: "Header_Get lib (Header (writeRealIP lib ?g request)) ''X-Real-Ip'' = ?g"
    using False by (simp add: writeRealIP_Get)
  have gp1: "?gp1 = fillValues lib gp request"
    by (simp add: Generic_GetRealIP_eq)
  have "snd (Generic_GetRealIP lib ?gp1 (writeRealIP lib ?g request))
          = TrimSpace lib (Header_Get lib (Header (writeRealIP lib ?g request)) ''X-Real-Ip'')"
    by (rule Generic_GetRealIP_XRealIp) (use False ok hdr get trimmed gp1 in simp_all)
  with get trimmed show ?thesis by simp
qed

section \<open>The handler with one field per provider, called twice\<close>

lemma New_as_built: "New lib config = Inr trip \<Longrightarrow> providers_as_built trip"
  by (auto simp: New_unfold Let_def providers_as_built_def InitializeGenericProvider_def
      InitializeCloudflareProvider_def InitializeQratorProvider_def
      genericProviderXForwardedForHeader_def genericProviderXRealIPHeader_def
      cloudflareProviderTrueClientIPHeader_def cloudflareProviderCFConnectingIPHeader_def
      qratorProviderXQratorIPSourceHeader_def
      split: sum.splits option.splits if_splits)

lemma Range_GetRealIP_headers [simp]:
  "headers (fst (Range_GetRealIP lib order p request)) = headers p"
  by (simp add: Range_GetRealIP_eq)

lemma Generic_GetRealIP_headers [simp]:
  "headers (fst (Generic_GetRealIP lib gp request)) = headers gp"
  by (simp add: Generic_GetRealIP_eq)

lemma ServeHTTP_realIP_as_built:
  assumes "providers_as_built trip"
    and "ServeHTTP_realIP lib sch trip request = Inr (trip', realIP)"
  shows "providers_as_built trip'"
proof -
  from assms(1) obtain gp cfp qp where
    g: "genericProvider trip = Some gp" "headers gp = [''X-Forwarded-For'', ''X-Real-Ip'']" and
    c: "cloudflareProvider trip = Some cfp" "headers cfp = [''True-Client-IP'', ''CF-Connecting-IP'']" and
    q: "qratorProvider trip = Some qp" "headers qp = [''X-Qrator-IP-Source'']"
    by (auto simp: providers_as_built_def)
  obtain cf1 rc where rc: "Range_GetRealIP lib (rangeCloudflareValues sch) cfp request = (cf1, rc)"
    by (cases "Range_GetRealIP lib (rangeCloudflareValues sch) cfp request")
  obtain q1 rq where rq: "Range_GetRealIP lib (rangeQratorValues sch) qp request = (q1, rq)"
    by (cases "Range_GetRealIP lib (rangeQratorValues sch) qp request")
  obtain gp1 rg where rg: "Generic_GetRealIP lib gp request = (gp1, rg)"
    by (cases "Generic_GetRealIP lib gp request")
  have h: "headers cf1 = headers cfp" "headers q1 = headers qp" "headers gp1 = headers gp"
    using Range_GetRealIP_headers [of lib "rangeCloudflareValues sch" cfp request]
      Range_GetRealIP_headers [of lib "rangeQratorValues sch" qp request]
      Generic_GetRealIP_headers [of lib gp request] rc rq rg
    by simp_all
  from assms(2) g c q rc rq rg h show ?thesis
    by (auto simp: ServeHTTP_realIP_def cloudflareGetRealIP_def qratorGetRealIP_def
        genericGetRealIP_def GetPreferredProvider_def HasPreferredProvider_def
        providers_as_built_def split: if_splits)
qed

lemma ServeHTTP_sequence_as_built:
  "providers_as_built trip \<Longrightarrow> ServeHTTP_sequence lib trip calls = Inr (trip', ips) \<Longrightarrow>
   providers_as_built trip'"
proof (induction calls arbitrary: trip ips)
  case Nil
  then show ?case by simp
next
  case (Cons call calls)
  from Cons.prems(2) obtain t1 ip1 t2 rest where
    s1: "ServeHTTP_realIP lib (fst call) trip (snd call) = Inr (t1, ip1)" and
    s2: "ServeHTTP_sequence lib t1 calls = Inr (t2, rest)" and e: "trip' = t2"
    by (auto split: sum.splits prod.splits)
  from ServeHTTP_realIP_as_built [OF Cons.prems(1) s1] have "providers_as_built t1" .
  with Cons.IH [of t1 rest] s2 e show ?case by simp
qed

lemma ServeHTTP_twice_as_built:
  assumes laws: "golib_laws lib" and built: "providers_as_built trip"
  shows "\<exists>ip. ServeHTTP_twice lib sch sch trip request = Inr (ip, ip)"
proof -
  from built obtain gp cfp qp where
    g: "genericProvider trip = Some gp" "headers gp = [''X-Forwarded-For'', ''X-Real-Ip'']" and
    c: "cloudflareProvider trip = Some cfp" "headers cfp = [''True-Client-IP'', ''CF-Connecting-IP'']" and
    q: "qratorProvider trip = Some qp" "headers qp = [''X-Qrator-IP-Source'']"
    by (auto simp: providers_as_built_def)
  from laws have parse: "\<forall>s. ParseIP lib s \<noteq> None \<longrightarrow> TrimSpace lib s = s"
    by (simp add: golib_laws_def)
  have frame_c: "\<forall>h \<in> set (headers cfp).
      Header_Get lib (Header (writeRealIP lib x request)) h = Header_Get lib (Header request) h"
    for x using laws c(2) by (simp add: golib_laws_def writeRealIP_other)
  have frame_q: "\<forall>h \<in> set (headers qp).
      Header_Get lib (Header (writeRealIP lib x request)) h = Header_Get lib (Header request) h"
    for x using laws q(2) by (simp add: golib_laws_def writeRealIP_other)
  obtain cf1 rc where rc: "Range_GetRealIP lib (rangeCloudflareValues sch) cfp request = (cf1, rc)"
    by (cases "Range_GetRealIP lib (rangeCloudflareValues sch) cfp request")
  obtain q1 rq where rq: "Range_GetRealIP lib (rangeQratorValues sch) qp request = (q1, rq)"
    by (cases "Range_GetRealIP lib (rangeQratorValues sch) qp request")
  obtain gp1 rg where rg: "Generic_GetRealIP lib gp request = (gp1, rg)"
    by (cases "Generic_GetRealIP lib gp request")
  have again_c: "Range_GetRealIP lib (rangeCloudflareValues sch) cf1 (writeRealIP lib x request)
                   = (cf1, rc)" for x
    using Range_GetRealIP_idem [OF frame_c, of "rangeCloudflareValues sch" x] rc by simp
  have again_q: "Range_GetRealIP lib (rangeQratorValues sch) q1 (writeRealIP lib x request)
                   = (q1, rq)" for x
    using Range_GetRealIP_idem [OF frame_q, of "rangeQratorValues sch" x] rq by simp
  have "snd (Generic_GetRealIP lib gp1 (writeRealIP lib rg request)) = rg"
    using Generic_GetRealIP_again [OF parse, of gp request] g(2) rg by simp
  then obtain gp2 where again_g: "Generic_GetRealIP lib gp1 (writeRealIP lib rg request) = (gp2, rg)"
    by (cases "Generic_GetRealIP lib gp1 (writeRealIP lib rg request)") simp
  show ?thesis
    using g c q rc rq rg again_c again_q again_g
    by (simp add: ServeHTTP_twice_def ServeHTTP_realIP_def cloudflareGetRealIP_def
        qratorGetRealIP_def genericGetRealIP_def GetPreferredProvider_def
        HasPreferredProvider_def)
qed

section \<open>The handler with the provider interface, called twice\<close>

lemma Interface_GetRealIP_idem:
  "Interface_GetRealIP lib sch (fst (Interface_GetRealIP lib sch inst request)) request
     = Interface_GetRealIP lib sch inst request"
proof (cases inst)
  case (GenericProvider gp)
  then show ?thesis
    using Generic_GetRealIP_idem [of lib gp request]
    by (simp add: split_beta)
next
  case (CloudflareProvider cfp)
  then show ?thesis
    using Range_GetRealIP_idem [of cfp lib request request "rangeCloudflareValues sch"]
    by (simp add: split_beta)
next
  case (QratorProvider qp)
  then show ?thesis
    using Range_GetRealIP_idem [of qp lib request request "rangeQratorValues sch"]
    by (simp add: split_beta)
qed

lemma Interface_GetRealIP_as_built:
  "entry_as_built k inst \<Longrightarrow> entry_as_built k (fst (Interface_GetRealIP lib sch inst request))"
  by (cases inst) (simp_all add: split_beta)

lemma Interface_GetRealIP_name [simp]:
  "Interface_GetName (fst (Interface_GetRealIP lib sch inst request)) = Interface_GetName inst"
  by (cases inst) (simp_all add: split_beta GetName_def Range_GetRealIP_eq Generic_GetRealIP_eq)

lemma Interface_GetRealIP_again_other:
  assumes laws: "golib_laws lib" and built: "entry_as_built k inst" and k: "k \<noteq> ''generic''"
  shows "Interface_GetRealIP lib sch (fst (Interface_GetRealIP lib sch inst request))
           (writeRealIP lib x request)
         = Interface_GetRealIP lib sch inst request"
proof (cases inst)
  case (GenericProvider gp)
  with built k show ?thesis by simp
next
  case (CloudflareProvider cfp)
  with built have h: "headers cfp = [''True-Client-IP'', ''CF-Connecting-IP'']" by simp
  have "\<forall>h \<in> set (headers cfp).
      Header_Get lib (Header (writeRealIP lib x request)) h = Header_Get lib (Header request) h"
    using laws h by (simp add: golib_laws_def writeRealIP_other)
  from Range_GetRealIP_idem [OF this, of "rangeCloudflareValues sch"] CloudflareProvider
  show ?thesis by (simp add: split_beta)
next
  case (QratorProvider qp)
  with built have h: "headers qp = [''X-Qrator-IP-Source'']" by simp
  have "\<forall>h \<in> set (headers qp).
      Header_Get lib (Header (writeRealIP lib x request)) h = Header_Get lib (Header request) h"
    using laws h by (simp add: golib_laws_def writeRealIP_other)
  from Range_GetRealIP_idem [OF this, of "rangeQratorValues sch"] QratorProvider
  show ?thesis by (simp add: split_beta)
qed

lemma Interface_GetRealIP_again_generic:
  assumes laws: "golib_laws lib" and built: "entry_as_built ''generic'' inst"
  shows "snd (Interface_GetRealIP lib sch (fst (Interface_GetRealIP lib sch inst request))
           (writeRealIP lib (snd (Interface_GetRealIP lib sch inst request)) request))
         = snd (Interface_GetRealIP lib sch inst request)"
proof (cases inst)
  case (GenericProvider gp)
  with built have h: "''X-Real-Ip'' \<in> set (headers gp)" by simp
  from laws have parse: "\<forall>s. ParseIP lib s \<noteq> None \<longrightarrow> TrimSpace lib s = s"
    by (simp add: golib_laws_def)
  from Generic_GetRealIP_again [OF parse h, of request] GenericProvider
  show ?thesis by (simp add: split_beta)
next
  case (CloudflareProvider cfp)
  with built show ?thesis by simp
next
  case (QratorProvider qp)
  with built show ?thesis by simp
qed

lemma recordRealIP_fields:
  "providers (recordRealIP lib sch request trip x) k =
     (if k = x then map_option (\<lambda>inst. fst (Interface_GetRealIP lib sch inst request))
                      (providers trip k)
      else providers trip k)"
  "providersIPs (recordRealIP lib sch request trip x) k =
     (if k = x
      then (case providers trip k of
              None \<Rightarrow> providersIPs trip k
            | Some inst \<Rightarrow>
                if snd (Interface_GetRealIP lib sch inst request) \<noteq> ''''
                then Some (snd (Interface_GetRealIP lib sch inst request))
                else providersIPs trip k)
      else providersIPs trip k)"
  "preferredProvider (recordRealIP lib sch request trip x) = preferredProvider trip"
  by (auto simp: recordRealIP_def GetProviders_def Let_def split_beta split: option.splits)

lemma foldl_recordRealIP:
  "providers (foldl (recordRealIP lib sch request) trip ks) k =
     (if k \<in> set ks then map_option (\<lambda>inst. fst (Interface_GetRealIP lib sch inst request))
                           (providers trip k)
      else providers trip k) \<and>
   providersIPs (foldl (recordRealIP lib sch request) trip ks) k =
     (if k \<in> set ks
      then (case providers trip k of
              None \<Rightarrow> providersIPs trip k
            | Some inst \<Rightarrow>
                if snd (Interface_GetRealIP lib sch inst request) \<noteq> ''''
                then Some (snd (Interface_GetRealIP lib sch inst request))
                else providersIPs trip k)
      else providersIPs trip k) \<and>
   preferredProvider (foldl (recordRealIP lib sch request) trip ks) = preferredProvider trip"
proof (induction ks arbitrary: trip)
  case Nil
  show ?case by (simp split: option.splits)
next
  case (Cons x xs)
  show ?case
    using Cons.IH [of "recordRealIP lib sch request trip x"]
    by (auto simp: recordRealIP_fields Interface_GetRealIP_idem split: option.splits)
qed

lemma firstRecorded_default:
  "(\<forall>r. firstRecorded ps ips ks r = r) \<or> (\<exists>v. \<forall>r. firstRecorded ps ips ks r = v)"
  by (induction ks) (auto split: option.splits)

lemma firstRecorded_names:
  assumes "\<forall>k. map_option Interface_GetName (ps k) = map_option Interface_GetName (ps' k)"
  shows "firstRecorded ps ips ks r = firstRecorded ps' ips ks r"
proof (induction ks)
  case Nil
  show ?case by simp
next
  case (Cons k ks)
  from assms have "map_option Interface_GetName (ps k) = map_option Interface_GetName (ps' k)"
    by blast
  with Cons show ?case by (cases "ps k"; cases "ps' k") (auto split: option.splits)
qed

lemma ServeHTTP_iface_realIP_eq:
  assumes T_def: "T = foldl (recordRealIP lib sch request) trip (rangeProvidersFirst sch)"
  shows "providers (fst (ServeHTTP_iface_realIP lib sch trip request)) = providers T"
    and "providersIPs (fst (ServeHTTP_iface_realIP lib sch trip request))
           = (providersIPs T)(''generic'' := None)"
    and "preferredProvider (fst (ServeHTTP_iface_realIP lib sch trip request))
           = preferredProvider trip"
    and "snd (ServeHTTP_iface_realIP lib sch trip request) =
           (if dom ((providersIPs T)(''generic'' := None)) \<noteq> {}
            then (if preferredProvider trip \<noteq> ''''
                  then (case ((providersIPs T)(''generic'' := None)) (preferredProvider trip) of
                          Some recorded \<Rightarrow> recorded
                        | None \<Rightarrow>
                            (case providersIPs T ''generic'' of Some v \<Rightarrow> v | None \<Rightarrow> ''''))
                  else firstRecorded (providers T) ((providersIPs T)(''generic'' := None))
                         (rangeProvidersSecond sch)
                         (case providersIPs T ''generic'' of Some v \<Rightarrow> v | None \<Rightarrow> ''''))
            else (case providersIPs T ''generic'' of Some v \<Rightarrow> v | None \<Rightarrow> ''''))"
proof -
  have pref: "preferredProvider T = preferredProvider trip"
    unfolding T_def using foldl_recordRealIP [of lib sch request trip] by blast
  show "providers (fst (ServeHTTP_iface_realIP lib sch trip request)) = providers T"
    by (cases "providersIPs T ''generic''")
      (simp_all add: ServeHTTP_iface_realIP_def Let_def T_def [symmetric] fun_upd_idem)
  show "providersIPs (fst (ServeHTTP_iface_realIP lib sch trip request))
           = (providersIPs T)(''generic'' := None)"
    by (cases "providersIPs T ''generic''")
      (simp_all add: ServeHTTP_iface_realIP_def Let_def T_def [symmetric] fun_upd_idem)
  show "preferredProvider (fst (ServeHTTP_iface_realIP lib sch trip request))
           = preferredProvider trip"
    using pref
    by (cases "providersIPs T ''generic''")
      (simp_all add: ServeHTTP_iface_realIP_def Let_def T_def [symmetric] fun_upd_idem)
  show "snd (ServeHTTP_iface_realIP lib sch trip request) =
           (if dom ((providersIPs T)(''generic'' := None)) \<noteq> {}
            then (if preferredProvider trip \<noteq> ''''
                  then (case ((providersIPs T)(''generic'' := None)) (preferredProvider trip) of
                          Some recorded \<Rightarrow> recorded
                        | None \<Rightarrow>
                            (case providersIPs T ''generic'' of Some v \<Rightarrow> v | None \<Rightarrow> ''''))
                  else firstRecorded (providers T) ((providersIPs T)(''generic'' := None))
                         (rangeProvidersSecond sch)
                         (case providersIPs T ''generic'' of Some v \<Rightarrow> v | None \<Rightarrow> ''''))
            else (case providersIPs T ''generic'' of Some v \<Rightarrow> v | None \<Rightarrow> ''''))"
    using pref
    by (cases "providersIPs T ''generic''")
      (simp_all add: ServeHTTP_iface_realIP_def Let_def T_def [symmetric] fun_upd_idem
        GetPreferredProvider_def HasPreferredProvider_def GetProviders_def
        del: dom_eq_empty_conv dom_fun_upd cong: if_cong option.case_cong)
qed

lemma generic_recorded:
  assumes "providersIPs trip ''generic'' = None"
  shows "(case providersIPs (foldl (recordRealIP lib sch request) trip ks) ''generic'' of
            Some v \<Rightarrow> v | None \<Rightarrow> '''')
         = (if ''generic'' \<in> set ks
            then (case providers trip ''generic'' of
                    None \<Rightarrow> ''''
                  | Some inst \<Rightarrow> snd (Interface_GetRealIP lib sch inst request))
            else '''')"
  using assms foldl_recordRealIP [of lib sch request trip ks "''generic''"]
  by (auto split: option.splits)

lemma ServeHTTP_iface_twice_as_built:
  fixes lib :: "('a, 'b) golib"
  assumes laws: "golib_laws lib" and built: "iface_as_built trip"
  shows "\<exists>ip. ServeHTTP_iface_twice lib sch sch trip request = (ip, ip)"
proof -
  let ?ks = "rangeProvidersFirst sch"
  let ?G = "\<lambda>inst r. Interface_GetRealIP lib sch inst r"
  define T1 where "T1 = foldl (recordRealIP lib sch request) trip ?ks"
  define trip1 where "trip1 = fst (ServeHTTP_iface_realIP lib sch trip request)"
  define ip1 where "ip1 = snd (ServeHTTP_iface_realIP lib sch trip request)"
  define request' where "request' = writeRealIP lib ip1 request"
  define T2 where "T2 = foldl (recordRealIP lib sch request') trip1 ?ks"
  define ip2 where "ip2 = snd (ServeHTTP_iface_realIP lib sch trip1 request')"
  define I2 where "I2 = (providersIPs T1)(''generic'' := None)"
  define r0 where "r0 = (case providersIPs T1 ''generic'' of Some v \<Rightarrow> v | None \<Rightarrow> '''')"
  define r0' where "r0' = (case providersIPs T2 ''generic'' of Some v \<Rightarrow> v | None \<Rightarrow> '''')"
  define sel where "sel = (\<lambda>(ps :: ('a, 'b) ProvidersMap) r.
      if dom I2 \<noteq> {}
      then (if preferredProvider trip \<noteq> ''''
            then (case I2 (preferredProvider trip) of Some recorded \<Rightarrow> recorded | None \<Rightarrow> r)
            else firstRecorded ps I2 (rangeProvidersSecond sch) r)
      else r)"
  from built have entries: "\<And>k inst. providers trip k = Some inst \<Longrightarrow> entry_as_built k inst"
    and nogen: "providersIPs trip ''generic'' = None"
    by (auto simp: iface_as_built_def)
  note first = ServeHTTP_iface_realIP_eq [OF T1_def, folded trip1_def ip1_def I2_def r0_def]
  have p1: "providers trip1 = providers T1" and i1: "providersIPs trip1 = I2"
    and pref1: "preferredProvider trip1 = preferredProvider trip"
    using first by simp_all
  have ip1_sel: "ip1 = sel (providers T1) r0"
    using first(4) by (simp add: sel_def)
  have T1_fields: "providers T1 k =
       (if k \<in> set ?ks then map_option (\<lambda>inst. fst (?G inst request)) (providers trip k)
        else providers trip k)"
    "providersIPs T1 k =
       (if k \<in> set ?ks
        then (case providers trip k of
                None \<Rightarrow> providersIPs trip k
              | Some inst \<Rightarrow>
                  if snd (?G inst request) \<noteq> '''' then Some (snd (?G inst request))
                  else providersIPs trip k)
        else providersIPs trip k)" for k
    unfolding T1_def using foldl_recordRealIP [of lib sch request trip ?ks k] by blast+
  have T2_fields: "providers T2 k =
       (if k \<in> set ?ks then map_option (\<lambda>inst. fst (?G inst request')) (providers trip1 k)
        else providers trip1 k)"
    "providersIPs T2 k =
       (if k \<in> set ?ks
        then (case providers trip1 k of
                None \<Rightarrow> providersIPs trip1 k
              | Some inst \<Rightarrow>
                  if snd (?G inst request') \<noteq> '''' then Some (snd (?G inst request'))
                  else providersIPs trip1 k)
        else providersIPs trip1 k)" for k
    unfolding T2_def using foldl_recordRealIP [of lib sch request' trip1 ?ks k] by blast+
  have A: "providersIPs T2 k = I2 k" if k: "k \<noteq> ''generic''" for k
  proof (cases "k \<in> set ?ks")
    case False
    then show ?thesis by (simp add: T2_fields i1)
  next
    case True
    show ?thesis
    proof (cases "providers trip k")
      case None
      with True show ?thesis by (simp add: T2_fields p1 i1 T1_fields)
    next
      case (Some inst)
      from entries [OF Some] have "entry_as_built k inst" .
      from Interface_GetRealIP_again_other [OF laws this k, of sch request ip1]
      have again: "?G (fst (?G inst request)) request' = ?G inst request"
        by (simp add: request'_def)
      from k have "I2 k = providersIPs T1 k" by (simp add: I2_def)
      with True Some again show ?thesis
        by (simp add: T2_fields p1 i1 T1_fields)
    qed
  qed
  have B: "(providersIPs T2)(''generic'' := None) = I2"
  proof
    fix k
    show "((providersIPs T2)(''generic'' := None)) k = I2 k"
      using A [of k] by (cases "k = ''generic''") (simp_all add: I2_def)
  qed
  have C: "\<forall>k. map_option Interface_GetName (providers T2 k)
                = map_option Interface_GetName (providers T1 k)"
    by (simp add: T2_fields p1 option.map_comp comp_def)
  note second = ServeHTTP_iface_realIP_eq [OF T2_def, folded ip2_def r0'_def]
  have "ip2 = sel (providers T2) r0'"
    using second(4) by (simp add: sel_def B pref1)
  also have "\<dots> = sel (providers T1) r0'"
    using firstRecorded_names [OF C] by (simp add: sel_def)
  finally have ip2_sel: "ip2 = sel (providers T1) r0'" .
  have E: "(\<forall>r. sel (providers T1) r = r) \<or> (\<exists>v. \<forall>r. sel (providers T1) r = v)"
    using firstRecorded_default [of "providers T1" I2 "rangeProvidersSecond sch"]
    by (cases "I2 (preferredProvider trip)") (auto simp: sel_def)
  have r0_eq: "r0 = (if ''generic'' \<in> set ?ks
            then (case providers trip ''generic'' of
                    None \<Rightarrow> ''''
                  | Some inst \<Rightarrow> snd (?G inst request))
            else '''')"
    unfolding r0_def T1_def by (rule generic_recorded [OF nogen])
  have "providersIPs trip1 ''generic'' = None" by (simp add: i1 I2_def)
  then have r0'_eq: "r0' = (if ''generic'' \<in> set ?ks
            then (case providers trip1 ''generic'' of
                    None \<Rightarrow> ''''
                  | Some inst \<Rightarrow> snd (?G inst request'))
            else '''')"
    unfolding r0'_def T2_def by (rule generic_recorded)
  have F: "r0' = r0" if same: "ip1 = r0"
  proof (cases "''generic'' \<in> set ?ks")
    case False
    then show ?thesis by (simp add: r0_eq r0'_eq)
  next
    case True
    show ?thesis
    proof (cases "providers trip ''generic''")
      case None
      with True show ?thesis by (simp add: r0_eq r0'_eq p1 T1_fields)
    next
      case (Some inst)
      from entries [OF Some] have gen: "entry_as_built ''generic'' inst" .
      from True Some have r0_inst: "r0 = snd (?G inst request)" by (simp add: r0_eq)
      with same have "request' = writeRealIP lib (snd (?G inst request)) request"
        by (simp add: request'_def)
      with Interface_GetRealIP_again_generic [OF laws gen, of sch request]
      have "snd (?G (fst (?G inst request)) request') = snd (?G inst request)" by simp
      with True Some r0_inst show ?thesis
        by (simp add: r0'_eq p1 T1_fields)
    qed
  qed
  from E have "ip1 = ip2"
  proof
    assume all: "\<forall>r. sel (providers T1) r = r"
    then have "ip1 = r0" by (simp add: ip1_sel)
    from F [OF this] all show ?thesis by (simp add: ip1_sel ip2_sel)
  next
    assume "\<exists>v. \<forall>r. sel (providers T1) r = v"
    then show ?thesis by (auto simp: ip1_sel ip2_sel)
  qed
  then have "ServeHTTP_iface_twice lib sch sch trip request = (ip1, ip1)"
    by (simp add: ServeHTTP_iface_twice_def split_beta trip1_def ip1_def ip2_def request'_def)
  then show ?thesis by blast
qed

lemma Initialize_entries:
  "Initialize nets addrs k = Some inst \<Longrightarrow> entry_as_built k inst"
  by (auto simp: Initialize_def InitializeGenericProvider_def
      InitializeCloudflareProvider_def InitializeQratorProvider_def
      genericProviderXForwardedForHeader_def genericProviderXRealIPHeader_def
      cloudflareProviderTrueClientIPHeader_def cloudflareProviderCFConnectingIPHeader_def
      qratorProviderXQratorIPSourceHeader_def split: if_splits)

lemma enableProviders_entries:
  "enableProviders lib manager vs enabled = Inr result \<Longrightarrow> result k = Some inst \<Longrightarrow>
   enabled k = Some inst \<or> manager k = Some inst"
proof (induction vs arbitrary: enabled)
  case Nil
  then show ?case by simp
next
  case (Cons v vs)
  let ?p = "TrimSpace lib (ToLower lib v)"
  from Cons.prems(1) have valid: "Providers_IsValidProvider manager ?p"
    and rest: "enableProviders lib manager vs (enabled(?p := Providers_GetProvider manager ?p))
                 = Inr result"
    by (auto simp: Let_def split: if_splits)
  from Cons.IH [OF rest Cons.prems(2)] show ?case
    by (auto simp: Providers_GetProvider_def split: if_splits)
qed

lemma New_iface_as_built:
  assumes "New_iface lib config = Inr trip"
  shows "iface_as_built trip"
proof -
  obtain nets where nets: "parseExcludedNetworks lib (ExcludedNetworks config) [] = Inr nets"
    using assms by (cases "parseExcludedNetworks lib (ExcludedNetworks config) []")
      (simp_all add: New_iface_unfold)
  let ?addrs = "List.map_filter (ParseIP lib) (ExcludedAddresses config)"
  let ?m = "Initialize nets ?addrs"
  show ?thesis
  proof (cases "elems (Providers config) = []")
    case True
    with assms nets have "providers trip = ?m" "providersIPs trip = Map.empty"
      by (auto simp: New_iface_unfold Let_def split: if_splits)
    then show ?thesis
      by (simp add: iface_as_built_def Initialize_entries)
  next
    case False
    with assms nets obtain enabled where
      en: "enableProviders lib ?m (elems (Providers config)) Map.empty = Inr enabled" and
      p: "providers trip = (if enabled ''generic'' = None
                            then enabled(''generic'' := ?m ''generic'') else enabled)" and
      i: "providersIPs trip = Map.empty"
      by (auto simp: New_iface_unfold Let_def split: if_splits sum.splits)
    have "entry_as_built k inst" if "providers trip k = Some inst" for k inst
    proof -
      from that p have "enabled k = Some inst \<or> ?m k = Some inst"
        by (auto split: if_splits)
      with enableProviders_entries [OF en, of k inst] have "?m k = Some inst" by auto
      then show ?thesis by (rule Initialize_entries)
    qed
    with i show ?thesis by (simp add: iface_as_built_def)
  qed
qed

lemma ServeHTTP_iface_realIP_as_built:
  assumes "iface_as_built trip"
  shows "iface_as_built (fst (ServeHTTP_iface_realIP lib sch trip request))"
proof -
  define T where "T = foldl (recordRealIP lib sch request) trip (rangeProvidersFirst sch)"
  note eq = ServeHTTP_iface_realIP_eq [OF T_def]
  have "entry_as_built k inst"
    if "providers (fst (ServeHTTP_iface_realIP lib sch trip request)) k = Some inst" for k inst
  proof -
    from that have "providers T k = Some inst" by (simp add: eq)
    with foldl_recordRealIP [of lib sch request trip "rangeProvidersFirst sch" k]
    have "providers trip k = Some inst \<or>
          (\<exists>inst0. providers trip k = Some inst0 \<and>
                   inst = fst (Interface_GetRealIP lib sch inst0 request))"
      by (auto simp: T_def split: if_splits)
    with assms show ?thesis
      by (auto simp: iface_as_built_def Interface_GetRealIP_as_built)
  qed
  then show ?thesis by (simp add: iface_as_built_def eq)
qed

lemma ServeHTTP_iface_sequence_as_built:
  "iface_as_built trip \<Longrightarrow> iface_as_built (fst (ServeHTTP_iface_sequence lib trip calls))"
proof (induction calls arbitrary: trip)
  case Nil
  then show ?case by simp
next
  case (Cons call calls)
  from ServeHTTP_iface_realIP_as_built [OF Cons.prems, of lib "fst call" "snd call"]
  have "iface_as_built (fst (ServeHTTP_iface_realIP lib (fst call) trip (snd call)))" .
  from Cons.IH [OF this] show ?case by (simp add: split_beta Let_def)
qed

lemma split_on_chars: "x \<in> set s \<Longrightarrow> x = c \<or> (\<exists>f \<in> set (split_on c s). x \<in> set f)"
  by (induction s) (auto split: list.splits if_splits)

lemma parse_dec_digits: "parse_dec bound f = Some n \<Longrightarrow> list_all is_digit f"
  by (auto simp: parse_dec_def split: if_splits)

lemma ParseIP4_chars:
  assumes "ParseIP4 s \<noteq> None" and "x \<in> set s"
  shows "x = CHR ''.'' \<or> is_digit x"
proof -
  from assms(1) have all: "\<forall>f \<in> set (split_on CHR ''.'' s). parse_dec 255 f \<noteq> None"
    by (auto simp: ParseIP4_def Let_def list_all_iff split: if_splits)
  from split_on_chars [OF assms(2), of "CHR ''.''"] show ?thesis
  proof
    assume "x = CHR ''.''" then show ?thesis by simp
  next
    assume "\<exists>f \<in> set (split_on CHR ''.'' s). x \<in> set f"
    then obtain f where f: "f \<in> set (split_on CHR ''.'' s)" "x \<in> set f" by blast
    with all obtain n where "parse_dec 255 f = Some n" by auto
    from parse_dec_digits [OF this] f(2) show ?thesis by (auto simp: list_all_iff)
  qed
qed

lemma not_space: "x = CHR ''.'' \<or> is_digit x \<Longrightarrow> \<not> ascii_space x"
  by (auto simp: ascii_space_def is_digit_def)

lemma dropWhile_none: "\<forall>x \<in> set s. \<not> P x \<Longrightarrow> dropWhile P s = s"
  by (cases s) auto

lemma ParseIP4_trimmed: "ParseIP4 s \<noteq> None \<Longrightarrow> TrimSpace_ascii s = s"
proof -
  assume "ParseIP4 s \<noteq> None"
  then have "\<forall>x \<in> set s. \<not> ascii_space x"
    using ParseIP4_chars not_space by blast
  then show ?thesis
    by (simp add: TrimSpace_ascii_def dropWhile_none)
qed

lemma ipv4_lib_laws: "golib_laws ipv4_lib"
  by (simp add: golib_laws_def lib_eval ParseIP4_trimmed)


section \<open>Serving the same request twice\<close>

text \<open>
  \<^verbatim>\<open>ServeHTTP\<close> writes the resolved address into the request, so the second call reads the
  request that the first call has left. The headers of the Cloudflare and Qrator providers
  are not touched by that write.
\<close>

lemma get_cf_eval:
  "Header_Get ipv4_lib (Header (requestWithHeaders ipv4_lib headersTwoCloudflare))
     ''True-Client-IP'' = ''10.0.0.40''"
  "Header_Get ipv4_lib (Header (requestWithHeaders ipv4_lib headersTwoCloudflare))
     ''CF-Connecting-IP'' = ''10.0.0.41''"
  "Header_Get ipv4_lib (Header (requestWithHeaders ipv4_lib headersTwoCloudflare))
     ''X-Real-Ip'' = ''''"
  "Header_Get ipv4_lib (Header (requestWithHeaders ipv4_lib headersTwoCloudflare))
     ''X-Forwarded-For'' = ''''"
  by (simp_all add: request_eval headersTwoCloudflare_def lib_eval)

lemma write_eval:
  "Header_Get ipv4_lib (Header (writeRealIP ipv4_lib realIP request)) ''True-Client-IP''
     = Header_Get ipv4_lib (Header request) ''True-Client-IP''"
  "Header_Get ipv4_lib (Header (writeRealIP ipv4_lib realIP request)) ''CF-Connecting-IP''
     = Header_Get ipv4_lib (Header request) ''CF-Connecting-IP''"
  "Header_Get ipv4_lib (Header (writeRealIP ipv4_lib realIP request)) ''X-Qrator-IP-Source''
     = Header_Get ipv4_lib (Header request) ''X-Qrator-IP-Source''"
  "Header_Get ipv4_lib (Header (writeRealIP ipv4_lib ''10.0.0.40'' request)) ''X-Real-Ip''
     = ''10.0.0.40''"
  "Header_Get ipv4_lib (Header (writeRealIP ipv4_lib ''10.0.0.40'' request)) ''X-Forwarded-For''
     = ''10.0.0.40''"
  by (simp_all add: writeRealIP_other writeRealIP_Get lib_eval)

lemma twice_orders_eval:
  "ServeHTTP_twice ipv4_lib sourceOrder
      (sourceOrder\<lparr>rangeCloudflareValues := [''CF-Connecting-IP'', ''True-Client-IP'']\<rparr>)
      (freshHandler ''cloudflare'') (requestWithHeaders ipv4_lib headersTwoCloudflare)
    = Inr (''10.0.0.40'', ''10.0.0.41'')"
  by (simp add: ServeHTTP_twice_def freshHandler_def handler_eval getrealip_eval get_cf_eval
      write_eval sourceOrder_def lib_eval)

lemma iface_twice_orders_eval:
  "ServeHTTP_iface_twice ipv4_lib sourceOrder
      (sourceOrder\<lparr>rangeProvidersSecond := [''generic'', ''qrator'', ''cloudflare'']\<rparr>)
      (freshHandler_iface '''') (requestWithHeaders ipv4_lib headersAllProviders)
    = (''10.0.0.40'', ''10.0.0.30'')"
  by (simp add: ServeHTTP_iface_twice_def freshHandler_iface_def iface_eval getrealip_eval
      get_eval write_eval sourceOrder_def lib_eval)

lemma orders_eval:
  "range_order
     (GetValues (fillValues ipv4_lib (InitializeCloudflareProvider [] [])
                   (requestWithHeaders ipv4_lib headersTwoCloudflare)))
     [''True-Client-IP'', ''CF-Connecting-IP'']"
  "range_order
     (GetValues (fillValues ipv4_lib (InitializeCloudflareProvider [] [])
                   (requestWithHeaders ipv4_lib headersTwoCloudflare)))
     [''CF-Connecting-IP'', ''True-Client-IP'']"
  "range_order (providers (freshHandler_iface '''')) [''generic'', ''cloudflare'', ''qrator'']"
  "range_order (providers (freshHandler_iface '''')) [''generic'', ''qrator'', ''cloudflare'']"
  by (auto simp: range_order_def GetValues_def fillValues_eq InitializeCloudflareProvider_def
      cloudflareProviderTrueClientIPHeader_def cloudflareProviderCFConnectingIPHeader_def
      get_cf_eval freshHandler_iface_def Initialize_def dom_def split: if_splits)

text \<open>
  Claim C9 says that serving the same request twice gives the same address both times.
  The Cloudflare and Qrator providers take the first value of a \<^verbatim>\<open>range\<close> over a map that is
  not excluded, and the revision with the provider interface takes the first provider of a
  \<^verbatim>\<open>range\<close> over its map of providers when no provider is preferred; Go leaves the order of
  such a visit open, and it may differ from one call to the next. A request with two
  different Cloudflare headers resolves to 10.0.0.40 when the first call visits
  \<^verbatim>\<open>True-Client-IP\<close> first and to 10.0.0.41 when the second call visits \<^verbatim>\<open>CF-Connecting-IP\<close>
  first; with the provider interface and no preferred provider, the request of the test
  case resolves to the Cloudflare address in one order of the providers and to the Qrator
  address in another. Both orders are orders of the map that is visited.
\<close>

theorem ServeHTTP_twice_counterexample:
  "New ipv4_lib (configPreferring ''cloudflare'') = Inr (freshHandler ''cloudflare'') \<and>
   range_order
     (GetValues (fillValues ipv4_lib (InitializeCloudflareProvider [] [])
                   (requestWithHeaders ipv4_lib headersTwoCloudflare)))
     [''True-Client-IP'', ''CF-Connecting-IP''] \<and>
   range_order
     (GetValues (fillValues ipv4_lib (InitializeCloudflareProvider [] [])
                   (requestWithHeaders ipv4_lib headersTwoCloudflare)))
     [''CF-Connecting-IP'', ''True-Client-IP''] \<and>
   ServeHTTP_twice ipv4_lib sourceOrder
      (sourceOrder\<lparr>rangeCloudflareValues := [''CF-Connecting-IP'', ''True-Client-IP'']\<rparr>)
      (freshHandler ''cloudflare'') (requestWithHeaders ipv4_lib headersTwoCloudflare)
    = Inr (''10.0.0.40'', ''10.0.0.41'') \<and>
   New_iface ipv4_lib (configPreferring '''') = Inr (freshHandler_iface '''') \<and>
   range_order (providers (freshHandler_iface '''')) [''generic'', ''cloudflare'', ''qrator''] \<and>
   range_order (providers (freshHandler_iface '''')) [''generic'', ''qrator'', ''cloudflare''] \<and>
   ServeHTTP_iface_twice ipv4_lib sourceOrder
      (sourceOrder\<lparr>rangeProvidersSecond := [''generic'', ''qrator'', ''cloudflare'']\<rparr>)
      (freshHandler_iface '''') (requestWithHeaders ipv4_lib headersAllProviders)
    = (''10.0.0.40'', ''10.0.0.30'')"
  by (simp only: New_eval New_iface_eval orders_eval twice_orders_eval iface_twice_orders_eval
      simp_thms)

text \<open>
  Claim C9, amended. When both calls visit the maps in the same order, the two calls give
  the same address, for every request, every handler that \<^verbatim>\<open>New\<close> has built and every
  sequence of requests that the handler has served before. The library is any one that
  meets \<open>golib_laws\<close>: an address that parses is its own trimmed form and holds no comma, and
  the header names are distinct after canonicalization.
\<close>

theorem ServeHTTP_twice_same_order:
  assumes "golib_laws lib"
  shows "(New lib config = Inr handler \<and> ServeHTTP_sequence lib handler calls = Inr (trip, ips)
            \<longrightarrow> (\<exists>ip. ServeHTTP_twice lib sch sch trip request = Inr (ip, ip))) \<and>
         (New_iface lib config = Inr ihandler
            \<longrightarrow> (\<exists>ip. ServeHTTP_iface_twice lib sch sch
                         (fst (ServeHTTP_iface_sequence lib ihandler icalls)) request = (ip, ip)))"
proof (intro conjI impI)
  assume "New lib config = Inr handler \<and> ServeHTTP_sequence lib handler calls = Inr (trip, ips)"
  then have "providers_as_built trip"
    using New_as_built ServeHTTP_sequence_as_built by blast
  with assms show "\<exists>ip. ServeHTTP_twice lib sch sch trip request = Inr (ip, ip)"
    by (rule ServeHTTP_twice_as_built)
next
  assume "New_iface lib config = Inr ihandler"
  then have "iface_as_built (fst (ServeHTTP_iface_sequence lib ihandler icalls))"
    using New_iface_as_built ServeHTTP_iface_sequence_as_built by blast
  with assms show "\<exists>ip. ServeHTTP_iface_twice lib sch sch
                         (fst (ServeHTTP_iface_sequence lib ihandler icalls)) request = (ip, ip)"
    by (rule ServeHTTP_iface_twice_as_built)
qed

lemma ServeHTTP_twice_first:
  "ServeHTTP_twice lib sch1 sch2 trip request = Inr (a, b) \<Longrightarrow>
   map_sum id snd (ServeHTTP_realIP lib sch1 trip request) = Inr a"
  by (auto simp: ServeHTTP_twice_def split: sum.splits prod.splits)

lemma ServeHTTP_iface_twice_first:
  "fst (ServeHTTP_iface_twice lib sch1 sch2 trip request)
     = snd (ServeHTTP_iface_realIP lib sch1 trip request)"
  by (simp add: ServeHTTP_iface_twice_def split_beta)

lemma first_call_eval:
  "map_sum id snd (ServeHTTP_realIP ipv4_lib sourceOrder (freshHandler ''cloudflare'')
      (requestWithHeaders ipv4_lib headersTwoCloudflare)) = Inr ''10.0.0.40''"
  "snd (ServeHTTP_iface_realIP ipv4_lib sourceOrder (freshHandler_iface '''')
      (requestWithHeaders ipv4_lib headersAllProviders)) = ''10.0.0.40''"
  by (simp_all add: freshHandler_def freshHandler_iface_def handler_eval iface_eval
      getrealip_eval get_cf_eval get_eval sourceOrder_def lib_eval)

text \<open>
  The library of the examples meets these laws, and the two requests above resolve to the
  same address twice when the order of the visit is kept.
\<close>

theorem ServeHTTP_twice_same_order_witness:
  "golib_laws ipv4_lib \<and>
   New ipv4_lib (configPreferring ''cloudflare'') = Inr (freshHandler ''cloudflare'') \<and>
   ServeHTTP_sequence ipv4_lib (freshHandler ''cloudflare'') []
     = Inr (freshHandler ''cloudflare'', []) \<and>
   ServeHTTP_twice ipv4_lib sourceOrder sourceOrder (freshHandler ''cloudflare'')
      (requestWithHeaders ipv4_lib headersTwoCloudflare) = Inr (''10.0.0.40'', ''10.0.0.40'') \<and>
   New_iface ipv4_lib (configPreferring '''') = Inr (freshHandler_iface '''') \<and>
   ServeHTTP_iface_twice ipv4_lib sourceOrder sourceOrder
      (fst (ServeHTTP_iface_sequence ipv4_lib (freshHandler_iface '''') []))
      (requestWithHeaders ipv4_lib headersAllProviders) = (''10.0.0.40'', ''10.0.0.40'')"
proof -
  have seq: "ServeHTTP_sequence ipv4_lib (freshHandler ''cloudflare'') []
               = Inr (freshHandler ''cloudflare'', [])"
    by simp
  note head_inst = ServeHTTP_twice_same_order [OF ipv4_lib_laws,
      where config = "configPreferring ''cloudflare''" and handler = "freshHandler ''cloudflare''"
        and calls = "[]" and trip = "freshHandler ''cloudflare''" and ips = "[]"
        and sch = sourceOrder and request = "requestWithHeaders ipv4_lib headersTwoCloudflare"]
  note iface_inst = ServeHTTP_twice_same_order [OF ipv4_lib_laws,
      where config = "configPreferring ''''" and ihandler = "freshHandler_iface ''''"
        and icalls = "[]" and sch = sourceOrder
        and request = "requestWithHeaders ipv4_lib headersAllProviders"]
  from head_inst New_eval seq obtain ip where
    ip: "ServeHTTP_twice ipv4_lib sourceOrder sourceOrder (freshHandler ''cloudflare'')
           (requestWithHeaders ipv4_lib headersTwoCloudflare) = Inr (ip, ip)"
    by blast
  from ServeHTTP_twice_first [OF ip] first_call_eval(1) have "ip = ''10.0.0.40''" by simp
  with ip have head: "ServeHTTP_twice ipv4_lib sourceOrder sourceOrder (freshHandler ''cloudflare'')
           (requestWithHeaders ipv4_lib headersTwoCloudflare) = Inr (''10.0.0.40'', ''10.0.0.40'')"
    by simp
  from iface_inst New_iface_eval obtain ip' where
    ip': "ServeHTTP_iface_twice ipv4_lib sourceOrder sourceOrder
            (fst (ServeHTTP_iface_sequence ipv4_lib (freshHandler_iface '''') []))
            (requestWithHeaders ipv4_lib headersAllProviders) = (ip', ip')"
    by blast
  have "fst (ServeHTTP_iface_twice ipv4_lib sourceOrder sourceOrder
            (fst (ServeHTTP_iface_sequence ipv4_lib (freshHandler_iface '''') []))
            (requestWithHeaders ipv4_lib headersAllProviders)) = ''10.0.0.40''"
    by (simp add: ServeHTTP_iface_twice_first first_call_eval)
  with ip' have "ip' = ''10.0.0.40''" by simp
  with ip' head seq New_eval New_iface_eval ipv4_lib_laws show ?thesis by simp
qed

section \<open>The result of the preferred provider and the result of the generic provider\<close>

lemma preferred_eval:
  "map_sum id snd (ServeHTTP_realIP ipv4_lib sourceOrder (freshHandler ''qrator'')
      (requestWithHeaders ipv4_lib headersAllProviders)) = Inr ''10.0.0.30''"
  "snd (ServeHTTP_iface_realIP ipv4_lib sourceOrder (freshHandler_iface ''qrator'')
      (requestWithHeaders ipv4_lib headersAllProviders)) = ''10.0.0.30''"
  by (simp_all add: freshHandler_def freshHandler_iface_def handler_eval iface_eval
      getrealip_eval get_eval sourceOrder_def lib_eval)

text \<open>
  Claim C2 says that the generic provider's result is the final address whenever the generic
  provider and the preferred provider both have one. For the request of the test case the
  generic provider's result is 10.0.0.20 and that of the preferred provider, Qrator, is
  10.0.0.30; both revisions resolve the request to 10.0.0.30.
\<close>

theorem preferred_result_counterexample:
  "New ipv4_lib (configPreferring ''qrator'') = Inr (freshHandler ''qrator'') \<and>
   New_iface ipv4_lib (configPreferring ''qrator'') = Inr (freshHandler_iface ''qrator'') \<and>
   snd (Generic_GetRealIP ipv4_lib (InitializeGenericProvider [] [])
          (requestWithHeaders ipv4_lib headersAllProviders)) = ''10.0.0.20'' \<and>
   snd (Range_GetRealIP ipv4_lib (rangeQratorValues sourceOrder) (InitializeQratorProvider [] [])
          (requestWithHeaders ipv4_lib headersAllProviders)) = ''10.0.0.30'' \<and>
   map_sum id snd (ServeHTTP_realIP ipv4_lib sourceOrder (freshHandler ''qrator'')
      (requestWithHeaders ipv4_lib headersAllProviders)) = Inr ''10.0.0.30'' \<and>
   snd (ServeHTTP_iface_realIP ipv4_lib sourceOrder (freshHandler_iface ''qrator'')
      (requestWithHeaders ipv4_lib headersAllProviders)) = ''10.0.0.30''"
  by (simp only: New_eval New_iface_eval generic_alone_eval qrator_alone_eval preferred_eval
      simp_thms)

text \<open>
  Claim C2, amended. Whenever the preferred provider has a result that is not empty, that
  result is the final address, whatever the generic provider returns. In the revision with
  one field per provider the preferred provider is Qrator or Cloudflare; in the revision
  with the provider interface it is any provider other than the generic one that the
  handler holds and that the first loop visits.
\<close>

theorem preferred_result_wins:
  "(preferredProvider trip = ''qrator'' \<and> qratorProvider trip = Some qp \<and>
    snd (Range_GetRealIP lib (rangeQratorValues sch) qp request) \<noteq> ''''
      \<longrightarrow> map_sum id snd (ServeHTTP_realIP lib sch trip request)
            = Inr (snd (Range_GetRealIP lib (rangeQratorValues sch) qp request))) \<and>
   (preferredProvider trip = ''cloudflare'' \<and> cloudflareProvider trip = Some cfp \<and>
    snd (Range_GetRealIP lib (rangeCloudflareValues sch) cfp request) \<noteq> ''''
      \<longrightarrow> map_sum id snd (ServeHTTP_realIP lib sch trip request)
            = Inr (snd (Range_GetRealIP lib (rangeCloudflareValues sch) cfp request))) \<and>
   (preferredProvider itrip \<noteq> '''' \<and> preferredProvider itrip \<noteq> ''generic'' \<and>
    preferredProvider itrip \<in> set (rangeProvidersFirst sch) \<and>
    providers itrip (preferredProvider itrip) = Some inst \<and>
    snd (Interface_GetRealIP lib sch inst request) \<noteq> ''''
      \<longrightarrow> snd (ServeHTTP_iface_realIP lib sch itrip request)
            = snd (Interface_GetRealIP lib sch inst request))"
proof (intro conjI impI)
  assume a: "preferredProvider trip = ''qrator'' \<and> qratorProvider trip = Some qp \<and>
    snd (Range_GetRealIP lib (rangeQratorValues sch) qp request) \<noteq> ''''"
  then show "map_sum id snd (ServeHTTP_realIP lib sch trip request)
            = Inr (snd (Range_GetRealIP lib (rangeQratorValues sch) qp request))"
    by (simp add: ServeHTTP_realIP_def qratorGetRealIP_def GetPreferredProvider_def
        HasPreferredProvider_def split_beta)
next
  assume a: "preferredProvider trip = ''cloudflare'' \<and> cloudflareProvider trip = Some cfp \<and>
    snd (Range_GetRealIP lib (rangeCloudflareValues sch) cfp request) \<noteq> ''''"
  then show "map_sum id snd (ServeHTTP_realIP lib sch trip request)
            = Inr (snd (Range_GetRealIP lib (rangeCloudflareValues sch) cfp request))"
    by (simp add: ServeHTTP_realIP_def cloudflareGetRealIP_def GetPreferredProvider_def
        HasPreferredProvider_def split_beta)
next
  let ?p = "preferredProvider itrip"
  let ?r = "snd (Interface_GetRealIP lib sch inst request)"
  assume a: "?p \<noteq> '''' \<and> ?p \<noteq> ''generic'' \<and> ?p \<in> set (rangeProvidersFirst sch) \<and>
    providers itrip ?p = Some inst \<and> ?r \<noteq> ''''"
  define T where "T = foldl (recordRealIP lib sch request) itrip (rangeProvidersFirst sch)"
  from a foldl_recordRealIP [of lib sch request itrip "rangeProvidersFirst sch" ?p]
  have rec: "providersIPs T ?p = Some ?r" by (simp add: T_def)
  with a have rec2: "((providersIPs T)(''generic'' := None)) ?p = Some ?r" by simp
  then have "dom ((providersIPs T)(''generic'' := None)) \<noteq> {}" by blast
  with a rec2 show "snd (ServeHTTP_iface_realIP lib sch itrip request) = ?r"
    by (simp only: ServeHTTP_iface_realIP_eq(4) [OF T_def] if_True option.case simp_thms)
qed

text \<open>Instances of the three cases, on the request of the test case.\<close>

lemma cloudflare_alone_eval:
  "snd (Range_GetRealIP ipv4_lib (rangeCloudflareValues sourceOrder)
          (InitializeCloudflareProvider [] [])
          (requestWithHeaders ipv4_lib headersAllProviders)) = ''10.0.0.40''"
  by (simp add: getrealip_eval get_eval lib_eval sourceOrder_def)

lemma preferred_cloudflare_eval:
  "map_sum id snd (ServeHTTP_realIP ipv4_lib sourceOrder (freshHandler ''cloudflare'')
      (requestWithHeaders ipv4_lib headersAllProviders)) = Inr ''10.0.0.40''"
  by (simp add: freshHandler_def handler_eval getrealip_eval get_eval sourceOrder_def lib_eval)

lemma iface_qrator_eval:
  "providers (freshHandler_iface ''qrator'') ''qrator''
     = Some (QratorProvider (InitializeQratorProvider [] []))"
  "snd (Interface_GetRealIP ipv4_lib sourceOrder (QratorProvider (InitializeQratorProvider [] []))
          (requestWithHeaders ipv4_lib headersAllProviders)) = ''10.0.0.30''"
  using qrator_alone_eval
  by (simp_all add: freshHandler_iface_def Initialize_def split_beta sourceOrder_def)

theorem preferred_result_wins_witness:
  "preferredProvider (freshHandler ''qrator'') = ''qrator'' \<and>
   qratorProvider (freshHandler ''qrator'') = Some (InitializeQratorProvider [] []) \<and>
   snd (Generic_GetRealIP ipv4_lib (InitializeGenericProvider [] [])
          (requestWithHeaders ipv4_lib headersAllProviders)) = ''10.0.0.20'' \<and>
   snd (Range_GetRealIP ipv4_lib (rangeQratorValues sourceOrder) (InitializeQratorProvider [] [])
          (requestWithHeaders ipv4_lib headersAllProviders)) = ''10.0.0.30'' \<and>
   map_sum id snd (ServeHTTP_realIP ipv4_lib sourceOrder (freshHandler ''qrator'')
      (requestWithHeaders ipv4_lib headersAllProviders)) = Inr ''10.0.0.30'' \<and>
   preferredProvider (freshHandler ''cloudflare'') = ''cloudflare'' \<and>
   cloudflareProvider (freshHandler ''cloudflare'') = Some (InitializeCloudflareProvider [] []) \<and>
   snd (Range_GetRealIP ipv4_lib (rangeCloudflareValues sourceOrder)
          (InitializeCloudflareProvider [] [])
          (requestWithHeaders ipv4_lib headersAllProviders)) = ''10.0.0.40'' \<and>
   map_sum id snd (ServeHTTP_realIP ipv4_lib sourceOrder (freshHandler ''cloudflare'')
      (requestWithHeaders ipv4_lib headersAllProviders)) = Inr ''10.0.0.40'' \<and>
   preferredProvider (freshHandler_iface ''qrator'') = ''qrator'' \<and>
   providers (freshHandler_iface ''qrator'') ''qrator''
     = Some (QratorProvider (InitializeQratorProvider [] [])) \<and>
   snd (Interface_GetRealIP ipv4_lib sourceOrder (QratorProvider (InitializeQratorProvider [] []))
          (requestWithHeaders ipv4_lib headersAllProviders)) = ''10.0.0.30'' \<and>
   snd (ServeHTTP_iface_realIP ipv4_lib sourceOrder (freshHandler_iface ''qrator'')
      (requestWithHeaders ipv4_lib headersAllProviders)) = ''10.0.0.30''"
proof -
  let ?req = "requestWithHeaders ipv4_lib headersAllProviders"
  let ?qp = "InitializeQratorProvider [] [] :: (int list, int list \<times> nat) Provider"
  let ?cfp = "InitializeCloudflareProvider [] [] :: (int list, int list \<times> nat) Provider"
  note q_inst = preferred_result_wins [where lib = ipv4_lib and sch = sourceOrder
      and request = ?req and trip = "freshHandler ''qrator''" and qp = ?qp, THEN conjunct1]
  note cf_inst = preferred_result_wins [where lib = ipv4_lib and sch = sourceOrder
      and request = ?req and trip = "freshHandler ''cloudflare''" and cfp = ?cfp,
      THEN conjunct2, THEN conjunct1]
  note i_inst = preferred_result_wins [where lib = ipv4_lib and sch = sourceOrder
      and request = ?req and itrip = "freshHandler_iface ''qrator''"
      and inst = "QratorProvider ?qp", THEN conjunct2, THEN conjunct2]
  have q: "preferredProvider (freshHandler ''qrator'') = ''qrator''"
    "qratorProvider (freshHandler ''qrator'') = Some ?qp"
    by (simp_all add: freshHandler_def)
  have cf: "preferredProvider (freshHandler ''cloudflare'') = ''cloudflare''"
    "cloudflareProvider (freshHandler ''cloudflare'') = Some ?cfp"
    by (simp_all add: freshHandler_def)
  have i: "preferredProvider (freshHandler_iface ''qrator'') = ''qrator''"
    "''qrator'' \<in> set (rangeProvidersFirst sourceOrder)"
    by (simp_all add: freshHandler_iface_def sourceOrder_def)
  from q_inst q qrator_alone_eval
  have r1: "map_sum id snd (ServeHTTP_realIP ipv4_lib sourceOrder (freshHandler ''qrator'') ?req)
              = Inr ''10.0.0.30''"
    by simp
  from cf_inst cf cloudflare_alone_eval
  have r2: "map_sum id snd (ServeHTTP_realIP ipv4_lib sourceOrder (freshHandler ''cloudflare'') ?req)
              = Inr ''10.0.0.40''"
    by simp
  from i_inst i iface_qrator_eval
  have r3: "snd (ServeHTTP_iface_realIP ipv4_lib sourceOrder (freshHandler_iface ''qrator'') ?req)
              = ''10.0.0.30''"
    by simp
  from q cf i(1) r1 r2 r3 qrator_alone_eval cloudflare_alone_eval iface_qrator_eval
    generic_alone_eval(1)
  show ?thesis by simp
qed

section \<open>Examples of the headers written by \<^verbatim>\<open>ServeHTTP\<close>\<close>

text \<open>
  A request with a Qrator header, served by a handler that prefers Qrator, reaches the next
  handler with both headers set to the Qrator address; a request without any header reaches
  it as it is.
\<close>

lemma empty_eval:
  "ParseIP4 '''' = None"
  "TrimSpace_ascii '''' = ''''"
  "Split_ascii '''' '','' = ['''']"
  by code_simp+

lemma get_none_eval:
  "Header_Get ipv4_lib (Header (requestWithHeaders ipv4_lib [])) key = ''''"
  by (simp add: request_eval)

lemma none_eval:
  "map_sum id snd (ServeHTTP_realIP ipv4_lib sourceOrder (freshHandler '''')
      (requestWithHeaders ipv4_lib [])) = Inr ''''"
  "snd (ServeHTTP_iface_realIP ipv4_lib sourceOrder (freshHandler_iface '''')
      (requestWithHeaders ipv4_lib [])) = ''''"
  by (simp_all add: freshHandler_def freshHandler_iface_def handler_eval iface_eval
      getrealip_eval get_none_eval sourceOrder_def lib_eval empty_eval)

theorem ServeHTTP_writes_two_headers_witness:
  "initialised (freshHandler ''qrator'') \<and>
   map_sum id (\<lambda>r. Header (snd r))
     (ServeHTTP ipv4_lib sourceOrder (\<lambda>w request'. request') (freshHandler ''qrator'') ()
        (requestWithHeaders ipv4_lib headersAllProviders))
     = Inr ((Header (requestWithHeaders ipv4_lib headersAllProviders))
              (CanonicalMIMEHeaderKey ipv4_lib ''X-Forwarded-For'' \<mapsto> [''10.0.0.30''],
               CanonicalMIMEHeaderKey ipv4_lib ''X-Real-Ip'' \<mapsto> [''10.0.0.30''])) \<and>
   Header (snd (ServeHTTP_iface ipv4_lib sourceOrder (\<lambda>w request'. request')
                  (freshHandler_iface ''qrator'') ()
                  (requestWithHeaders ipv4_lib headersAllProviders)))
     = (Header (requestWithHeaders ipv4_lib headersAllProviders))
         (CanonicalMIMEHeaderKey ipv4_lib ''X-Forwarded-For'' \<mapsto> [''10.0.0.30''],
          CanonicalMIMEHeaderKey ipv4_lib ''X-Real-Ip'' \<mapsto> [''10.0.0.30'']) \<and>
   initialised (freshHandler '''') \<and>
   map_sum id snd
     (ServeHTTP ipv4_lib sourceOrder (\<lambda>w request'. request') (freshHandler '''') ()
        (requestWithHeaders ipv4_lib []))
     = Inr (requestWithHeaders ipv4_lib []) \<and>
   snd (ServeHTTP_iface ipv4_lib sourceOrder (\<lambda>w request'. request')
          (freshHandler_iface '''') () (requestWithHeaders ipv4_lib []))
     = requestWithHeaders ipv4_lib []"
proof -
  let ?req = "requestWithHeaders ipv4_lib headersAllProviders"
  let ?none = "requestWithHeaders ipv4_lib []"
  let ?nxt = "\<lambda>(w :: unit) (request' :: Request). request'"
  note all_inst = ServeHTTP_writes_two_headers [where lib = ipv4_lib and sch = sourceOrder
      and nxt = ?nxt and w = "()" and request = ?req and trip = "freshHandler ''qrator''"
      and itrip = "freshHandler_iface ''qrator''"]
  note none_inst = ServeHTTP_writes_two_headers [where lib = ipv4_lib and sch = sourceOrder
      and nxt = ?nxt and w = "()" and request = ?none and trip = "freshHandler ''''"
      and itrip = "freshHandler_iface ''''"]
  have init: "initialised (freshHandler ''qrator'')" "initialised (freshHandler '''')"
    by (simp_all add: initialised_def freshHandler_def)
  from all_inst init obtain t1 r1 q1 t2 r2 q2 where
    h1: "ServeHTTP_realIP ipv4_lib sourceOrder (freshHandler ''qrator'') ?req = Inr (t1, r1)"
        "ServeHTTP ipv4_lib sourceOrder ?nxt (freshHandler ''qrator'') () ?req = Inr (t1, q1)"
        "if r1 \<noteq> ''''
         then Header q1 = (Header ?req)
                (CanonicalMIMEHeaderKey ipv4_lib ''X-Forwarded-For'' \<mapsto> [r1],
                 CanonicalMIMEHeaderKey ipv4_lib ''X-Real-Ip'' \<mapsto> [r1]) \<and>
              Header_Get ipv4_lib (Header q1) ''X-Forwarded-For'' = r1 \<and>
              Header_Get ipv4_lib (Header q1) ''X-Real-Ip'' = r1
         else q1 = ?req" and
    h2: "ServeHTTP_iface_realIP ipv4_lib sourceOrder (freshHandler_iface ''qrator'') ?req = (t2, r2)"
        "ServeHTTP_iface ipv4_lib sourceOrder ?nxt (freshHandler_iface ''qrator'') () ?req = (t2, q2)"
        "if r2 \<noteq> ''''
         then Header q2 = (Header ?req)
                (CanonicalMIMEHeaderKey ipv4_lib ''X-Forwarded-For'' \<mapsto> [r2],
                 CanonicalMIMEHeaderKey ipv4_lib ''X-Real-Ip'' \<mapsto> [r2]) \<and>
              Header_Get ipv4_lib (Header q2) ''X-Forwarded-For'' = r2 \<and>
              Header_Get ipv4_lib (Header q2) ''X-Real-Ip'' = r2
         else q2 = ?req"
    by blast
  from h1(1) preferred_eval(1) have "r1 = ''10.0.0.30''" by simp
  with h1 have a1: "map_sum id (\<lambda>r. Header (snd r))
     (ServeHTTP ipv4_lib sourceOrder ?nxt (freshHandler ''qrator'') () ?req)
     = Inr ((Header ?req)
              (CanonicalMIMEHeaderKey ipv4_lib ''X-Forwarded-For'' \<mapsto> [''10.0.0.30''],
               CanonicalMIMEHeaderKey ipv4_lib ''X-Real-Ip'' \<mapsto> [''10.0.0.30'']))"
    by simp
  from h2(1) preferred_eval(2) have "r2 = ''10.0.0.30''" by simp
  with h2 have a2: "Header (snd (ServeHTTP_iface ipv4_lib sourceOrder ?nxt
                  (freshHandler_iface ''qrator'') () ?req))
     = (Header ?req)
         (CanonicalMIMEHeaderKey ipv4_lib ''X-Forwarded-For'' \<mapsto> [''10.0.0.30''],
          CanonicalMIMEHeaderKey ipv4_lib ''X-Real-Ip'' \<mapsto> [''10.0.0.30''])"
    by simp
  from none_inst init obtain t3 r3 q3 t4 r4 q4 where
    h3: "ServeHTTP_realIP ipv4_lib sourceOrder (freshHandler '''') ?none = Inr (t3, r3)"
        "ServeHTTP ipv4_lib sourceOrder ?nxt (freshHandler '''') () ?none = Inr (t3, q3)"
        "if r3 \<noteq> ''''
         then Header q3 = (Header ?none)
                (CanonicalMIMEHeaderKey ipv4_lib ''X-Forwarded-For'' \<mapsto> [r3],
                 CanonicalMIMEHeaderKey ipv4_lib ''X-Real-Ip'' \<mapsto> [r3]) \<and>
              Header_Get ipv4_lib (Header q3) ''X-Forwarded-For'' = r3 \<and>
              Header_Get ipv4_lib (Header q3) ''X-Real-Ip'' = r3
         else q3 = ?none" and
    h4: "ServeHTTP_iface_realIP ipv4_lib sourceOrder (freshHandler_iface '''') ?none = (t4, r4)"
        "ServeHTTP_iface ipv4_lib sourceOrder ?nxt (freshHandler_iface '''') () ?none = (t4, q4)"
        "if r4 \<noteq> ''''
         then Header q4 = (Header ?none)
                (CanonicalMIMEHeaderKey ipv4_lib ''X-Forwarded-For'' \<mapsto> [r4],
                 CanonicalMIMEHeaderKey ipv4_lib ''X-Real-Ip'' \<mapsto> [r4]) \<and>
              Header_Get ipv4_lib (Header q4) ''X-Forwarded-For'' = r4 \<and>
              Header_Get ipv4_lib (Header q4) ''X-Real-Ip'' = r4
         else q4 = ?none"
    by blast
  from h3(1) none_eval(1) have "r3 = ''''" by simp
  with h3 have a3: "map_sum id snd
      (ServeHTTP ipv4_lib sourceOrder ?nxt (freshHandler '''') () ?none) = Inr ?none"
    by simp
  from h4(1) none_eval(2) have "r4 = ''''" by simp
  with h4 have a4: "snd (ServeHTTP_iface ipv4_lib sourceOrder ?nxt
      (freshHandler_iface '''') () ?none) = ?none"
    by simp
  from init a1 a2 a3 a4 show ?thesis by simp
qed

end
